theory Spec2Isabelle
  imports Complex_Main "HOL-Library.Sublist"
begin

section \<open>Resilient fetch: \<open>retryFetch\<close>\<close>

text \<open>
  Embedding of \<open>retryFetch\<close> of \<open>src/lib/languages.ts\<close> (the browser client) and of
  \<open>retryFetch\<close> of \<open>supabase/functions/google-places/index.ts\<close> (the edge function).

  A \<open>Response\<close> is its status and its body (the type of bodies is a parameter); an
  attempt of \<open>fetch\<close> either rejects (network failure) or resolves to a response. The
  outside world is a state \<open>'w\<close> that \<open>fetch\<close> may change; \<open>fetch url i w\<close> is the
  \<open>i\<close>-th call (0-indexed) of one \<open>retryFetch\<close>. Errors are values. Delays are the
  arguments given to \<open>setTimeout\<close>, as real numbers; \<open>Math.random()\<close> is a stream of
  reals, one per call.
\<close>

record 'b response =
  status :: nat
  body :: 'b

definition ok :: "'b response \<Rightarrow> bool" where
  "ok r = (200 \<le> status r \<and> status r \<le> 299)"

datatype 'b attempt = Rejects string | Responds "'b response"

datatype 'b fetch_error =
    UrlUndefined
  | SupabaseUrlNotConfigured
  | HttpError nat 'b
  | NetworkError string

text \<open>What one call of \<open>retryFetch\<close> did: what it returned or threw (\<open>Inl None\<close> is
  \<open>throw null\<close>, the value of \<open>lastError\<close> when the loop body never ran), the number of
  loop iterations, the number of \<open>fetch\<close> calls issued, the failures logged by
  \<open>console.warn\<close> in order, the delays slept in order, and the world afterwards.\<close>

record ('b, 'w) fetch_run =
  outcome :: "'b fetch_error option + 'b response"
  attempts :: nat
  issued :: nat
  failures :: "'b fetch_error list"
  sleeps :: "real list"
  world :: 'w

text \<open>An environment variable is falsy when it is unset or the empty string; the URL
  argument is a string, falsy when empty.\<close>

definition falsy_str :: "string option \<Rightarrow> bool" where
  "falsy_str s = (s = None \<or> s = Some [])"

text \<open>The \<open>try\<close> block of the client's loop body: the two configuration checks, then
  \<open>fetch\<close>, then the \<open>response.ok\<close> check. The second component tells whether
  \<open>fetch\<close> was called.\<close>

definition try_fetch ::
  "string \<Rightarrow> string option \<Rightarrow> (string \<Rightarrow> nat \<Rightarrow> 'w \<Rightarrow> 'b attempt \<times> 'w) \<Rightarrow> nat \<Rightarrow> 'w
     \<Rightarrow> ('b fetch_error + 'b response) \<times> bool \<times> 'w" where
  "try_fetch url supabaseUrl fetch i w =
     (if url = [] then (Inl UrlUndefined, False, w)
      else if falsy_str supabaseUrl then (Inl SupabaseUrlNotConfigured, False, w)
      else (case fetch url i w of
              (Rejects msg, w') \<Rightarrow> (Inl (NetworkError msg), True, w')
            | (Responds r, w') \<Rightarrow>
                if \<not> ok r then (Inl (HttpError (status r) (body r)), True, w')
                else (Inr r, True, w')))"

definition jitter :: "(nat \<Rightarrow> real) \<Rightarrow> nat \<Rightarrow> real" where
  "jitter random i = random i * 1000"

definition delay :: "real \<Rightarrow> (nat \<Rightarrow> real) \<Rightarrow> nat \<Rightarrow> real" where
  "delay backoff random i = min (backoff * 2 ^ i + jitter random i) 5000"

function retryFetch_loop ::
  "string \<Rightarrow> string option \<Rightarrow> (string \<Rightarrow> nat \<Rightarrow> 'w \<Rightarrow> 'b attempt \<times> 'w) \<Rightarrow> (nat \<Rightarrow> real)
     \<Rightarrow> nat \<Rightarrow> real \<Rightarrow> nat \<Rightarrow> ('b, 'w) fetch_run \<Rightarrow> ('b, 'w) fetch_run" where
  "retryFetch_loop url supabaseUrl fetch random retries backoff i run =
     (if i < retries then
        (case try_fetch url supabaseUrl fetch i (world run) of
           (Inr r, called, w') \<Rightarrow>
             run\<lparr>outcome := Inr r, attempts := Suc i,
                 issued := issued run + (if called then 1 else 0), world := w'\<rparr>
         | (Inl e, called, w') \<Rightarrow>
             (let run' = run\<lparr>outcome := Inl (Some e), attempts := Suc i,
                              issued := issued run + (if called then 1 else 0),
                              failures := failures run @ [e], world := w'\<rparr>
              in if i = retries - 1 then run'
                 else retryFetch_loop url supabaseUrl fetch random retries backoff (Suc i)
                        (run'\<lparr>sleeps := sleeps run' @ [delay backoff random i]\<rparr>)))
      else run)"
  by pat_completeness auto
termination
  by (relation "measure (\<lambda>(url, supabaseUrl, fetch, random, retries, backoff, i, run). retries - i)")
     auto

declare retryFetch_loop.simps [simp del]

text \<open>\<open>retryFetch(url, options, retries = 3, backoff = 1000)\<close>: \<open>lastError\<close> starts as
  \<open>null\<close>, nothing has been slept.\<close>

definition retryFetch ::
  "string \<Rightarrow> string option \<Rightarrow> (string \<Rightarrow> nat \<Rightarrow> 'w \<Rightarrow> 'b attempt \<times> 'w) \<Rightarrow> (nat \<Rightarrow> real)
     \<Rightarrow> nat \<Rightarrow> real \<Rightarrow> 'w \<Rightarrow> ('b, 'w) fetch_run" where
  "retryFetch url supabaseUrl fetch random retries backoff w =
     retryFetch_loop url supabaseUrl fetch random retries backoff 0
       \<lparr>outcome = Inl None, attempts = 0, issued = 0, failures = [], sleeps = [], world = w\<rparr>"

text \<open>The edge function's variant: no configuration checks, and the delay is
  \<open>Math.pow(2, i) * 1000\<close>.\<close>

definition try_fetch_edge ::
  "(string \<Rightarrow> nat \<Rightarrow> 'w \<Rightarrow> 'b attempt \<times> 'w) \<Rightarrow> string \<Rightarrow> nat \<Rightarrow> 'w
     \<Rightarrow> ('b fetch_error + 'b response) \<times> 'w" where
  "try_fetch_edge fetch url i w =
     (case fetch url i w of
        (Rejects msg, w') \<Rightarrow> (Inl (NetworkError msg), w')
      | (Responds r, w') \<Rightarrow>
          if \<not> ok r then (Inl (HttpError (status r) (body r)), w') else (Inr r, w'))"

function retryFetch_edge_loop ::
  "(string \<Rightarrow> nat \<Rightarrow> 'w \<Rightarrow> 'b attempt \<times> 'w) \<Rightarrow> string \<Rightarrow> nat \<Rightarrow> nat \<Rightarrow> ('b, 'w) fetch_run
     \<Rightarrow> ('b, 'w) fetch_run" where
  "retryFetch_edge_loop fetch url retries i run =
     (if i < retries then
        (case try_fetch_edge fetch url i (world run) of
           (Inr r, w') \<Rightarrow>
             run\<lparr>outcome := Inr r, attempts := Suc i, issued := Suc (issued run), world := w'\<rparr>
         | (Inl e, w') \<Rightarrow>
             (let run' = run\<lparr>outcome := Inl (Some e), attempts := Suc i,
                              issued := Suc (issued run),
                              failures := failures run @ [e], world := w'\<rparr>
              in if i = retries - 1 then run'
                 else retryFetch_edge_loop fetch url retries (Suc i)
                        (run'\<lparr>sleeps := sleeps run' @ [2 ^ i * 1000]\<rparr>)))
      else run)"
  by pat_completeness auto
termination
  by (relation "measure (\<lambda>(fetch, url, retries, i, run). retries - i)") auto

declare retryFetch_edge_loop.simps [simp del]

definition retryFetch_edge ::
  "(string \<Rightarrow> nat \<Rightarrow> 'w \<Rightarrow> 'b attempt \<times> 'w) \<Rightarrow> string \<Rightarrow> nat \<Rightarrow> 'w \<Rightarrow> ('b, 'w) fetch_run" where
  "retryFetch_edge fetch url retries w =
     retryFetch_edge_loop fetch url retries 0
       \<lparr>outcome = Inl None, attempts = 0, issued = 0, failures = [], sleeps = [], world = w\<rparr>"

section \<open>Deduplication by identity key\<close>

text \<open>
  Embedding of the filter of \<open>searchNearbyPlaces\<close> in
  \<open>supabase/functions/google-places/index.ts\<close>: \<open>seenPlaceIds\<close> is a
  \<open>Set\<close> that the filter callback reads and extends; an item whose key is in the set is
  dropped, any other item is kept and its key added. The function returns the kept items
  and the set afterwards (the set lives on across the place types of one search). The
  source's key is \<open>place.place_id\<close>; here it is a parameter.
\<close>

fun uniquePlaces :: "('a \<Rightarrow> 'k) \<Rightarrow> 'k set \<Rightarrow> 'a list \<Rightarrow> 'a list \<times> 'k set" where
  "uniquePlaces key seen [] = ([], seen)"
| "uniquePlaces key seen (place # results) =
     (if key place \<in> seen then uniquePlaces key seen results
      else (case uniquePlaces key (insert (key place) seen) results of
              (kept, seen') \<Rightarrow> (place # kept, seen')))"

section \<open>The services table\<close>

text \<open>
  A service is a JavaScript object whose properties are the columns of the
  \<open>services\<close> table; a property that an object may lack (or a column that may be
  \<open>NULL\<close>) is an \<open>option\<close>. The same record is a row of the table (then \<open>id\<close> is
  set), a payload sent to the table and an entry of an edge function's \<open>services\<close>
  reply. Coordinates are real numbers. The table is its rows in insertion order and the
  supply of fresh ids (a counter stands for \<open>gen_random_uuid()\<close>).
\<close>

record service =
  id :: "nat option"
  name :: "string option"
  type :: string
  address :: "string option"
  latitude :: real
  longitude :: real
  phone :: string
  email :: string
  website :: "string option"
  hours :: string
  languages :: "string list option"
  description :: "string option"
  created_by :: "string option"
  created_at :: "string option"
  updated_at :: "string option"
  osm_id :: "string option"
  google_place_id :: "string option"
  source :: string
  country :: "string option"

record store =
  rows :: "service list"
  next_id :: nat

datatype db_error =
    NotNullViolation
  | CheckViolation
  | UniqueViolation
  | CardinalityViolation
  | Unavailable string

text \<open>
  The constraints of the migrations: the \<open>NOT NULL\<close> columns that a payload can lack,
  the \<open>CHECK\<close> on \<open>type\<close> (\<open>crystal_dream\<close>), \<open>check_external_ids\<close>
  (\<open>cool_block\<close>), and the two \<open>UNIQUE\<close> constraints \<open>services_osm_id_key\<close> and
  \<open>services_google_place_id_key\<close>, which as in SQL do not compare \<open>NULL\<close>s.
\<close>

definition not_null_ok :: "service \<Rightarrow> bool" where
  "not_null_ok r =
     (name r \<noteq> None \<and> address r \<noteq> None \<and> languages r \<noteq> None \<and> description r \<noteq> None)"

definition check_ok :: "service \<Rightarrow> bool" where
  "check_ok r =
     (type r \<in> set [''clinic'', ''shelter'', ''legal'', ''food'', ''education'', ''other'']
      \<and> ((source r = ''OSM'' \<and> osm_id r \<noteq> None)
         \<or> (source r = ''GooglePlaces'' \<and> google_place_id r \<noteq> None)
         \<or> source r = ''manual''))"

definition unique_ok :: "service list \<Rightarrow> bool" where
  "unique_ok rs =
     (distinct (List.map_filter osm_id rs) \<and> distinct (List.map_filter google_place_id rs))"

subsection \<open>Statements\<close>

text \<open>
  Each call of the Supabase client is one SQL statement, committed on its own; a
  statement that fails changes nothing. \<open>insert_rows\<close> is \<open>.insert(payloads)\<close>,
  \<open>delete_rows\<close> is \<open>.delete()\<close> with its filters as a predicate, \<open>upsert_rows\<close> is
  \<open>.upsert(payloads, {onConflict: 'google_place_id', ignoreDuplicates: false})\<close>, that is
  \<open>INSERT ... ON CONFLICT (google_place_id) DO UPDATE SET\<close> every column of the payload.
  The payloads of this repository set every column but \<open>id\<close>, \<open>created_by\<close> and the
  other provider's id column; the conflicting row keeps those.
\<close>

fun number_from :: "nat \<Rightarrow> service list \<Rightarrow> service list" where
  "number_from n [] = []"
| "number_from n (p # ps) = p\<lparr>id := Some n\<rparr> # number_from (Suc n) ps"

definition insert_rows :: "service list \<Rightarrow> store \<Rightarrow> db_error + store" where
  "insert_rows ps st =
     (if \<not> list_all not_null_ok ps then Inl NotNullViolation
      else if \<not> list_all check_ok ps then Inl CheckViolation
      else if \<not> unique_ok (rows st @ ps) then Inl UniqueViolation
      else Inr \<lparr>rows = rows st @ number_from (next_id st) ps,
                next_id = next_id st + length ps\<rparr>)"

definition delete_rows :: "(service \<Rightarrow> bool) \<Rightarrow> store \<Rightarrow> db_error + store" where
  "delete_rows P st = Inr (st\<lparr>rows := filter (\<lambda>r. \<not> P r) (rows st)\<rparr>)"

definition conflicts :: "service \<Rightarrow> service \<Rightarrow> bool" where
  "conflicts p r = (google_place_id p \<noteq> None \<and> google_place_id r = google_place_id p)"

definition excluded_update :: "service \<Rightarrow> service \<Rightarrow> service" where
  "excluded_update p r =
     r\<lparr>name := name p, type := type p, address := address p, latitude := latitude p,
       longitude := longitude p, phone := phone p, email := email p, website := website p,
       hours := hours p, google_place_id := google_place_id p, source := source p,
       country := country p, languages := languages p, description := description p,
       created_at := created_at p, updated_at := updated_at p\<rparr>"

definition upsert_one :: "store \<Rightarrow> service \<Rightarrow> store" where
  "upsert_one st p =
     (if list_ex (conflicts p) (rows st)
      then st\<lparr>rows := map (\<lambda>r. if conflicts p r then excluded_update p r else r) (rows st)\<rparr>
      else \<lparr>rows = rows st @ [p\<lparr>id := Some (next_id st)\<rparr>], next_id = Suc (next_id st)\<rparr>)"

definition upsert_rows :: "service list \<Rightarrow> store \<Rightarrow> db_error + store" where
  "upsert_rows ps st =
     (if \<not> list_all not_null_ok ps then Inl NotNullViolation
      else if \<not> list_all check_ok ps then Inl CheckViolation
      else if \<not> distinct (List.map_filter google_place_id ps) then Inl CardinalityViolation
      else if \<not> unique_ok (rows (foldl upsert_one st ps)) then Inl UniqueViolation
      else Inr (foldl upsert_one st ps))"

text \<open>A statement can also fail for a reason outside the table (the connection, a
  timeout): \<open>fault\<close> is that reason, when there is one.\<close>

definition run_statement ::
  "string option \<Rightarrow> (store \<Rightarrow> db_error + store) \<Rightarrow> store \<Rightarrow> db_error + store" where
  "run_statement fault stmt st =
     (case fault of Some msg \<Rightarrow> Inl (Unavailable msg) | None \<Rightarrow> stmt st)"

section \<open>The google-places edge function\<close>

text \<open>
  Embedding of \<open>supabase/functions/google-places/index.ts\<close>. A place is an object of
  Google's JSON; the properties that the function reads are fields, absent ones are
  \<open>None\<close>. Three of them are written with the prefix \<open>place_\<close> because the name is
  also a column of \<open>services\<close>: \<open>place_name\<close> is \<open>name\<close>, \<open>place_website\<close> is
  \<open>website\<close>, \<open>place_country\<close> is \<open>country\<close>. \<open>geometry\<close> stands for
  \<open>geometry.location\<close> with its two numbers, \<open>opening_hours\<close> for the object with
  its optional \<open>weekday_text\<close>. A Place Details result has the first seven properties
  (the \<open>fields\<close> the function asks for), a Nearby Search result adds \<open>place_id\<close> and
  \<open>vicinity\<close>, and the function adds the country.
\<close>

record details =
  place_name :: "string option"
  formatted_address :: "string option"
  formatted_phone_number :: "string option"
  international_phone_number :: "string option"
  place_website :: "string option"
  opening_hours :: "string list option option"
  geometry :: "(real \<times> real) option"

record place = details +
  place_id :: string
  vicinity :: "string option"
  place_country :: "string option"

record 'a api_reply =
  api_status :: string
  payload :: "'a option"

text \<open>The body of a request, as parsed JSON.\<close>

datatype json =
    JNull
  | JBool bool
  | JNum real
  | JStr string
  | JArr "json list"
  | JObj "(string \<times> json) list"

record gp_request =
  req_location :: "json option"
  req_type :: "string option"
  req_radius :: "json option"

text \<open>
  What an edge function finds outside during one invocation: the elements that the
  Overpass API returns for a country, the reply of the Geocoding API for a pair of
  coordinates, of Nearby Search for a location, a radius and a place type, and of Place
  Details for a place id, each as the outcome of \<open>retryFetch\<close> followed by
  \<open>response.json()\<close> (\<open>Inl\<close> when that throws); the time of \<open>new Date()\<close>; and for
  the \<open>k\<close>-th statement that the invocation sends to the table, the reason it fails
  for when it fails for a reason outside the table. An element of Overpass is its type,
  its id in decimal, its coordinates and its tags.
\<close>

record geocode_result =
  address_components :: "(string \<times> string list) list"

record osm_element =
  element_type :: string
  element_id :: string
  element_lat :: real
  element_lon :: real
  element_tags :: "string \<Rightarrow> string option"

record env =
  overpass_api :: "string \<Rightarrow> string + osm_element list"
  geocode_api :: "real \<Rightarrow> real \<Rightarrow> string + geocode_result list api_reply"
  nearby_api :: "real \<times> real \<Rightarrow> json \<Rightarrow> string \<Rightarrow> string + place list api_reply"
  details_api :: "string \<Rightarrow> string + details api_reply"
  now :: string
  db_fault :: "nat \<Rightarrow> string option"

datatype edge_error =
    TypeRequired
  | CountryRequired
  | CountryNotFound
  | FetchFailed string
  | NotIterable
  | TypeError
  | DbError db_error

definition typeMapping :: "string \<Rightarrow> string list option" where
  "typeMapping t =
     map_of [(''clinic'', [''hospital'', ''doctor'', ''health'']),
             (''shelter'', [''lodging'', ''local_government_office'']),
             (''legal'', [''lawyer'']),
             (''food'', [''food_bank'', ''meal_delivery'']),
             (''education'', [''school'', ''university'']),
             (''other'', [''point_of_interest''])] t"

text \<open>\<open>typeMapping[type]\<close> also finds the properties that every object inherits; their
  values are truthy and not iterable, so the \<open>for ... of\<close> over them throws.\<close>

definition inherited_property :: "string \<Rightarrow> bool" where
  "inherited_property t =
     (t \<in> set [''constructor'', ''hasOwnProperty'', ''isPrototypeOf'', ''propertyIsEnumerable'',
               ''toLocaleString'', ''toString'', ''valueOf'', ''__proto__'',
               ''__defineGetter__'', ''__defineSetter__'', ''__lookupGetter__'',
               ''__lookupSetter__''])"

definition placeTypes :: "string \<Rightarrow> edge_error + string list" where
  "placeTypes t =
     (case typeMapping t of
        Some ts \<Rightarrow> Inr ts
      | None \<Rightarrow> if inherited_property t then Inl NotIterable else Inr [''point_of_interest''])"

definition getCountryFromCoordinates :: "env \<Rightarrow> real \<Rightarrow> real \<Rightarrow> edge_error + string" where
  "getCountryFromCoordinates env lat lng =
     (case geocode_api env lat lng of
        Inl msg \<Rightarrow> Inl (FetchFailed msg)
      | Inr data \<Rightarrow>
          (case (api_status data = ''OK'', payload data) of
             (True, Some (first # others)) \<Rightarrow>
               (case find (\<lambda>component. ''country'' \<in> set (snd component))
                       (address_components first) of
                  Some countryComponent \<Rightarrow> Inr (fst countryComponent)
                | None \<Rightarrow> Inl CountryNotFound)
           | _ \<Rightarrow> Inl CountryNotFound))"

definition getPlaceDetails :: "env \<Rightarrow> string \<Rightarrow> details option" where
  "getPlaceDetails env placeId =
     (case details_api env placeId of
        Inl msg \<Rightarrow> None
      | Inr data \<Rightarrow> if api_status data = ''OK'' \<and> payload data \<noteq> None then payload data else None)"

text \<open>\<open>{...place, ...details, country}\<close>: a property of the details replaces the
  place's, spreading \<open>null\<close> adds nothing, and the country is set last.\<close>

definition override :: "'a option \<Rightarrow> 'a option \<Rightarrow> 'a option" where
  "override old new = (case new of None \<Rightarrow> old | Some v \<Rightarrow> Some v)"

definition spread :: "place \<Rightarrow> details option \<Rightarrow> string \<Rightarrow> place" where
  "spread p ds c =
     (case ds of
        None \<Rightarrow> p\<lparr>place_country := Some c\<rparr>
      | Some d \<Rightarrow>
          p\<lparr>place_name := override (place_name p) (place_name d),
            formatted_address := override (formatted_address p) (formatted_address d),
            formatted_phone_number :=
              override (formatted_phone_number p) (formatted_phone_number d),
            international_phone_number :=
              override (international_phone_number p) (international_phone_number d),
            place_website := override (place_website p) (place_website d),
            opening_hours := override (opening_hours p) (opening_hours d),
            geometry := override (geometry p) (geometry d),
            place_country := Some c\<rparr>)"

text \<open>The loop over the place types. A type whose search throws or whose reply is not
  \<open>OK\<close> is skipped; the places of an \<open>OK\<close> reply are deduplicated against
  \<open>seenPlaceIds\<close>, then each is enriched. \<open>getPlaceDetails\<close> never throws, so every
  promise is fulfilled and no place is filtered out after the deduplication.\<close>

fun search_types ::
  "env \<Rightarrow> real \<times> real \<Rightarrow> json \<Rightarrow> string \<Rightarrow> string set \<Rightarrow> string list \<Rightarrow> place list" where
  "search_types env location radius c seenPlaceIds [] = []"
| "search_types env location radius c seenPlaceIds (placeType # rest) =
     (case nearby_api env location radius placeType of
        Inl msg \<Rightarrow> search_types env location radius c seenPlaceIds rest
      | Inr data \<Rightarrow>
          (case (api_status data = ''OK'', payload data) of
             (True, Some results) \<Rightarrow>
               (case uniquePlaces place_id seenPlaceIds results of
                  (unique, seen') \<Rightarrow>
                    map (\<lambda>p. spread p (getPlaceDetails env (place_id p)) c) unique
                    @ search_types env location radius c seen' rest)
           | _ \<Rightarrow> search_types env location radius c seenPlaceIds rest))"

definition searchNearbyPlaces ::
  "env \<Rightarrow> real \<times> real \<Rightarrow> string \<Rightarrow> json \<Rightarrow> edge_error + place list" where
  "searchNearbyPlaces env location t radius =
     (case getCountryFromCoordinates env (fst location) (snd location) of
        Inl e \<Rightarrow> Inl e
      | Inr c \<Rightarrow>
          (case placeTypes t of
             Inl e \<Rightarrow> Inl e
           | Inr ts \<Rightarrow> Inr (search_types env location radius c {} ts)))"

subsection \<open>The request handler\<close>

text \<open>JavaScript's truthiness of a parsed JSON value (\<open>None\<close> is \<open>undefined\<close>), the
  two \<open>typeof\<close> tests of the handler, and the property of an object (for a key that
  occurs twice \<open>JSON.parse\<close> keeps the last).\<close>

definition truthy :: "json option \<Rightarrow> bool" where
  "truthy v =
     (case v of
        None \<Rightarrow> False
      | Some JNull \<Rightarrow> False
      | Some (JBool b) \<Rightarrow> b
      | Some (JNum x) \<Rightarrow> x \<noteq> 0
      | Some (JStr s) \<Rightarrow> s \<noteq> []
      | Some (JArr xs) \<Rightarrow> True
      | Some (JObj props) \<Rightarrow> True)"

definition typeof_object :: "json option \<Rightarrow> bool" where
  "typeof_object v =
     (case v of Some JNull \<Rightarrow> True | Some (JArr xs) \<Rightarrow> True | Some (JObj props) \<Rightarrow> True
      | _ \<Rightarrow> False)"

definition typeof_number :: "json option \<Rightarrow> bool" where
  "typeof_number v = (case v of Some (JNum x) \<Rightarrow> True | _ \<Rightarrow> False)"

definition property :: "json option \<Rightarrow> string \<Rightarrow> json option" where
  "property v k = (case v of Some (JObj props) \<Rightarrow> map_of (rev props) k | _ \<Rightarrow> None)"

definition number_of :: "json option \<Rightarrow> real" where
  "number_of v = (case v of Some (JNum x) \<Rightarrow> x | _ \<Rightarrow> 0)"

definition searchLocation :: "json option \<Rightarrow> real \<times> real" where
  "searchLocation location =
     (if truthy location \<and> typeof_object location
         \<and> typeof_number (property location ''lat'')
         \<and> typeof_number (property location ''lng'')
      then (number_of (property location ''lat''), number_of (property location ''lng''))
      else (0, 0))"

definition searchRadius :: "json option \<Rightarrow> json" where
  "searchRadius radius =
     (case radius of Some r \<Rightarrow> if truthy radius then r else JNum 50000 | None \<Rightarrow> JNum 50000)"

text \<open>\<open>a || b\<close> on strings that may be \<open>undefined\<close>, and \<open>a || 'literal'\<close>.\<close>

definition js_or :: "string option \<Rightarrow> string option \<Rightarrow> string option" where
  "js_or a b = (if a \<noteq> None \<and> a \<noteq> Some [] then a else b)"

definition or_literal :: "string option \<Rightarrow> string \<Rightarrow> string" where
  "or_literal a lit = (case a of Some s \<Rightarrow> if s \<noteq> [] then s else lit | None \<Rightarrow> lit)"

fun join :: "string \<Rightarrow> string list \<Rightarrow> string" where
  "join sep [] = []"
| "join sep [x] = x"
| "join sep (x # y # ys) = x @ sep @ join sep (y # ys)"

text \<open>One element of \<open>formattedPlaces\<close>. Reading \<open>place.geometry.location\<close> of a place
  without geometry throws a \<open>TypeError\<close>; \<open>places.map\<close> then throws as a whole.\<close>

definition formatPlace :: "env \<Rightarrow> string \<Rightarrow> place \<Rightarrow> edge_error + service" where
  "formatPlace env t p =
     (case geometry p of
        None \<Rightarrow> Inl TypeError
      | Some (plat, plng) \<Rightarrow>
          Inr \<lparr>id = None,
               name = place_name p,
               type = t,
               address = js_or (formatted_address p) (vicinity p),
               latitude = plat,
               longitude = plng,
               phone = or_literal
                         (js_or (formatted_phone_number p) (international_phone_number p)) [],
               email = [],
               website = Some (or_literal (place_website p) []),
               hours = (case opening_hours p of
                          Some (Some weekday_text) \<Rightarrow> join ''; '' weekday_text
                        | _ \<Rightarrow> []),
               languages = Some [''en''],
               description = Some (''Service data from Google Places: ''
                                   @ (case place_name p of Some n \<Rightarrow> n | None \<Rightarrow> ''undefined'')),
               created_by = None,
               created_at = Some (now env),
               updated_at = Some (now env),
               osm_id = None,
               google_place_id = Some (place_id p),
               source = ''GooglePlaces'',
               country = place_country p\<rparr>)"

fun formattedPlaces :: "env \<Rightarrow> string \<Rightarrow> place list \<Rightarrow> edge_error + service list" where
  "formattedPlaces env t [] = Inr []"
| "formattedPlaces env t (p # ps) =
     (case formatPlace env t p of
        Inl e \<Rightarrow> Inl e
      | Inr f \<Rightarrow> (case formattedPlaces env t ps of Inl e \<Rightarrow> Inl e | Inr fs \<Rightarrow> Inr (f # fs)))"

text \<open>The loop over the batches: \<open>batchSize = 10\<close>, the batch at \<open>i\<close> is
  \<open>slice(i, i + 10)\<close>, and \<open>throw upsertError\<close> leaves the loop with the table as the
  statements before it left it.\<close>

function upsert_batches :: "env \<Rightarrow> service list \<Rightarrow> nat \<Rightarrow> store \<Rightarrow> db_error option \<times> store" where
  "upsert_batches env places i st =
     (if i < length places then
        (case run_statement (db_fault env (i div 10)) (upsert_rows (take 10 (drop i places))) st of
           Inl upsertError \<Rightarrow> (Some upsertError, st)
         | Inr st' \<Rightarrow> upsert_batches env places (i + 10) st')
      else (None, st))"
  by pat_completeness auto
termination
  by (relation "measure (\<lambda>(env, places, i, st). length places - i)") auto

declare upsert_batches.simps [simp del]

datatype reply = Success nat "service list" | Failure edge_error

definition error_response :: "edge_error \<Rightarrow> reply response" where
  "error_response e = \<lparr>status = 500, body = Failure e\<rparr>"

definition success_response :: "service list \<Rightarrow> reply response" where
  "success_response services = \<lparr>status = 200, body = Success (length services) services\<rparr>"

text \<open>The handler of a \<open>POST\<close> whose body parses as an object with a string (or no)
  \<open>type\<close>: it returns the response and leaves the table. \<open>persist_and_respond\<close>
  is the handler from the return of \<open>searchNearbyPlaces\<close> on.\<close>

definition persist_and_respond ::
  "env \<Rightarrow> string \<Rightarrow> edge_error + place list \<Rightarrow> store \<Rightarrow> reply response \<times> store" where
  "persist_and_respond env t searched st =
     (case searched of
        Inl e \<Rightarrow> (error_response e, st)
      | Inr places \<Rightarrow>
          (case formattedPlaces env t places of
             Inl e \<Rightarrow> (error_response e, st)
           | Inr formatted \<Rightarrow>
               if length formatted > 0 then
                 (case upsert_batches env formatted 0 st of
                    (Some upsertError, st') \<Rightarrow> (error_response (DbError upsertError), st')
                  | (None, st') \<Rightarrow> (success_response formatted, st'))
               else (success_response formatted, st)))"

definition google_places :: "env \<Rightarrow> gp_request \<Rightarrow> store \<Rightarrow> reply response \<times> store" where
  "google_places env req st =
     (case req_type req of
        None \<Rightarrow> (error_response TypeRequired, st)
      | Some t \<Rightarrow>
          if t = [] then (error_response TypeRequired, st)
          else persist_and_respond env t
                 (searchNearbyPlaces env (searchLocation (req_location req)) t
                    (searchRadius (req_radius req)))
                 st)"

section \<open>The osm-lookup edge function\<close>

text \<open>Embedding of \<open>supabase/functions/osm-lookup/index.ts\<close>: the mapping of an
  Overpass element to a service, and the handler, which replaces the OSM rows of the
  country when the fetch returned at least one service.\<close>

definition mapOsmTypeToServiceType :: "(string \<Rightarrow> string option) \<Rightarrow> string option" where
  "mapOsmTypeToServiceType tags =
     (if tags ''healthcare'' = Some ''clinic'' \<or> tags ''healthcare'' = Some ''doctor''
      then Some ''clinic''
      else if tags ''social_facility'' = Some ''shelter'' then Some ''shelter''
      else if tags ''amenity'' = Some ''social_facility''
              \<and> tags ''social_facility'' = Some ''food_bank'' then Some ''food''
      else if tags ''amenity'' = Some ''social_facility''
              \<and> tags ''social_facility'' = Some ''refugee_site'' then Some ''shelter''
      else if tags ''amenity'' = Some ''school'' \<or> tags ''amenity'' = Some ''language_school''
      then Some ''education''
      else if tags ''office'' = Some ''ngo'' \<or> tags ''amenity'' = Some ''social_facility''
      then Some ''other''
      else None)"

definition osmService :: "string \<Rightarrow> osm_element \<Rightarrow> service" where
  "osmService c element =
     \<lparr>id = None,
      name = Some (or_literal (element_tags element ''name'') ''Unnamed Service''),
      type = or_literal (mapOsmTypeToServiceType (element_tags element)) ''other'',
      address = Some (or_literal (element_tags element ''addr:full'') []),
      latitude = element_lat element,
      longitude = element_lon element,
      phone = or_literal (js_or (element_tags element ''phone'')
                                (element_tags element ''contact:phone'')) [],
      email = or_literal (js_or (element_tags element ''email'')
                                (element_tags element ''contact:email'')) [],
      website = Some (or_literal (element_tags element ''website'') []),
      hours = or_literal (element_tags element ''opening_hours'') [],
      languages = None,
      description = None,
      created_by = None,
      created_at = None,
      updated_at = None,
      osm_id = Some (element_type element @ ''/'' @ element_id element),
      google_place_id = None,
      source = ''OSM'',
      country = Some c\<rparr>"

definition fetchOsmServices :: "env \<Rightarrow> string \<Rightarrow> edge_error + service list" where
  "fetchOsmServices env c =
     (case overpass_api env c of
        Inl msg \<Rightarrow> Inl (FetchFailed msg)
      | Inr elements \<Rightarrow> Inr (map (osmService c) elements))"

text \<open>The object that the handler inserts for a fetched service.\<close>

definition osmRow :: "env \<Rightarrow> service \<Rightarrow> service" where
  "osmRow env s =
     s\<lparr>created_by := None,
       languages := Some [''en''],
       description := Some (''Service data from OpenStreetMap: ''
                            @ (case name s of Some n \<Rightarrow> n | None \<Rightarrow> ''undefined'')),
       created_at := Some (now env),
       updated_at := Some (now env)\<rparr>"

definition osm_lookup :: "env \<Rightarrow> string option \<Rightarrow> store \<Rightarrow> reply response \<times> store" where
  "osm_lookup env req_country st =
     (case req_country of
        None \<Rightarrow> (error_response CountryRequired, st)
      | Some c \<Rightarrow>
          if c = [] then (error_response CountryRequired, st)
          else
            (case fetchOsmServices env c of
               Inl e \<Rightarrow> (error_response e, st)
             | Inr osmServices \<Rightarrow>
                 if length osmServices > 0 then
                   (case run_statement (db_fault env 0)
                           (delete_rows (\<lambda>r. source r = ''OSM'' \<and> country r = Some c)) st of
                      Inl deleteError \<Rightarrow> (error_response (DbError deleteError), st)
                    | Inr st1 \<Rightarrow>
                        (case run_statement (db_fault env 1)
                                (insert_rows (map (osmRow env) osmServices)) st1 of
                           Inl insertError \<Rightarrow> (error_response (DbError insertError), st1)
                         | Inr st2 \<Rightarrow> (success_response osmServices, st2)))
                 else (success_response osmServices, st)))"

section \<open>The aggregation: \<open>searchServices\<close>\<close>

text \<open>
  Embedding of \<open>searchServices\<close> of \<open>src/lib/languages.ts\<close>, in two layers. The
  first is the function after its awaits: it takes what the query of the table resolved
  to (\<open>data\<close> and \<open>error\<close>) and, for each of the two edge functions, what the
  \<open>try\<close> around \<open>retryFetch\<close> and \<open>response.json()\<close> ended with: \<open>Inl\<close> when
  either threw, else the value that \<open>response.json()\<close> resolved to. The items are of
  any type; \<open>{...service, priority, badge}\<close> is the item with its two added properties.
  \<open>Array.prototype.sort\<close> is stable, as \<open>sort_key\<close> is.
\<close>

record 'a query_result =
  data :: "'a list option"
  query_error :: "string option"

text \<open>A parsed reply, as far as \<open>(reply.services || []).map(...)\<close> tells replies
  apart: \<open>null\<close>; a value whose \<open>services\<close> is an array; any other value that is
  not \<open>null\<close> whose \<open>services\<close> is \<open>undefined\<close> or falsy (an object without the
  property, a number, a string, an array); a value whose \<open>services\<close> is truthy and not
  an array.\<close>

datatype 'a parsed =
    JsonNull
  | WithServices "'a list"
  | WithoutServices
  | ServicesNotArray

text \<open>Reading \<open>services\<close> of \<open>null\<close> throws a \<open>TypeError\<close>, and so does calling
  \<open>map\<close> on a truthy value that is not an array (no JSON value but an array has a
  callable \<open>map\<close>). The \<open>error\<close> of a result is the message of what the outer
  \<open>catch\<close> caught: the string of an \<open>Error\<close>, or the text that the engine gives the
  \<open>TypeError\<close>.\<close>

datatype type_error = ServicesOfNull | MapNotFunction

datatype message = Message string | MessageOf type_error

record 'a ranked =
  item :: 'a
  priority :: nat
  badge :: string

record 'a search_result =
  internal :: "'a ranked list"
  osm :: "'a ranked list"
  google :: "'a ranked list"
  error :: "message option"

definition services_property :: "'a parsed \<Rightarrow> type_error + 'a list option" where
  "services_property reply =
     (case reply of
        JsonNull \<Rightarrow> Inl ServicesOfNull
      | WithServices services \<Rightarrow> Inr (Some services)
      | WithoutServices \<Rightarrow> Inr None
      | ServicesNotArray \<Rightarrow> Inl MapNotFunction)"

definition or_empty :: "'a list option \<Rightarrow> 'a list" where
  "or_empty xs = (case xs of Some ys \<Rightarrow> ys | None \<Rightarrow> [])"

definition allServices :: "'a list option \<Rightarrow> 'a list option \<Rightarrow> 'a list option \<Rightarrow> 'a ranked list" where
  "allServices internalServices osmServices googleServices =
     map (\<lambda>s. \<lparr>item = s, priority = 1, badge = ''Verified''\<rparr>) (or_empty internalServices)
     @ map (\<lambda>s. \<lparr>item = s, priority = 2, badge = ''OSM''\<rparr>) (or_empty osmServices)
     @ map (\<lambda>s. \<lparr>item = s, priority = 3, badge = ''GooglePlaces''\<rparr>) (or_empty googleServices)"

definition sortedServices :: "'a ranked list \<Rightarrow> 'a ranked list" where
  "sortedServices services = take 5 (sort_key priority services)"

text \<open>The object that the outer \<open>catch\<close> returns.\<close>

definition caught :: "message \<Rightarrow> 'a search_result" where
  "caught m = \<lparr>internal = [], osm = [], google = [], error = Some m\<rparr>"

text \<open>The array literal of \<open>allServices\<close> is evaluated from left to right: the
  \<open>services\<close> of the OSM reply are read and mapped before those of the Google reply, and
  the first \<open>TypeError\<close> leaves the \<open>try\<close>.\<close>

definition searchServices ::
  "'a query_result \<Rightarrow> 'e + 'a parsed \<Rightarrow> 'e + 'a parsed \<Rightarrow> 'a search_result" where
  "searchServices query osmFetch googleFetch =
     (case query_error query of
        Some message \<Rightarrow> caught (Message (''Database error: '' @ message))
      | None \<Rightarrow>
          (let osmData = (case osmFetch of Inl e \<Rightarrow> WithServices [] | Inr reply \<Rightarrow> reply);
               googleData = (case googleFetch of Inl e \<Rightarrow> WithServices [] | Inr reply \<Rightarrow> reply)
           in case services_property osmData of
                Inl thrown \<Rightarrow> caught (MessageOf thrown)
              | Inr osmServices \<Rightarrow>
                  (case services_property googleData of
                     Inl thrown \<Rightarrow> caught (MessageOf thrown)
                   | Inr googleServices \<Rightarrow>
                       (let sorted = sortedServices
                                       (allServices (data query) osmServices googleServices)
                        in \<lparr>internal = filter (\<lambda>s. priority s = 1) sorted,
                            osm = filter (\<lambda>s. priority s = 2) sorted,
                            google = filter (\<lambda>s. priority s = 3) sorted,
                            error = None\<rparr>))))"

section \<open>One aggregation call against the edge functions\<close>













section \<open>Auxiliary definitions for the proofs\<close>

text \<open>\<open>retry_inv d i run\<close> holds of the loop state before iteration \<open>i\<close> when the
  delays slept so far are \<open>d 0, ..., d (i - 1)\<close>; \<open>retry_post\<close> is what the loop
  establishes when it is entered with \<open>retries > 0\<close>.\<close>

definition retry_inv :: "(nat \<Rightarrow> real) \<Rightarrow> nat \<Rightarrow> ('b,'w) fetch_run \<Rightarrow> bool" where
 "retry_inv d i run = (attempts run = i \<and> length (failures run) = i \<and> issued run \<le> i \<and>
     sleeps run = map d [0..<i] \<and>
     (0 < i \<longrightarrow> outcome run = Inl (Some (last (failures run)))))"

definition retry_post :: "(nat \<Rightarrow> real) \<Rightarrow> nat \<Rightarrow> ('b,'w) fetch_run \<Rightarrow> bool" where
 "retry_post d retries r = (issued r \<le> attempts r \<and> attempts r \<le> retries \<and> 0 < attempts r \<and>
     sleeps r = map d [0..<attempts r - 1] \<and>
     (case outcome r of Inr resp \<Rightarrow> ok resp
        | Inl err \<Rightarrow> attempts r = retries \<and> length (failures r) = retries \<and> err = Some (last (failures r))))"




text \<open>The replies on which \<open>searchServices\<close> throws.\<close>

definition malformed :: "'e + 'a parsed \<Rightarrow> bool" where
  "malformed f = (f = Inr JsonNull \<or> f = Inr ServicesNotArray)"



section \<open>Example data\<close>

text \<open>An outside world in which nothing answers and the table never fails, a service
  with empty columns, and the rows, element and worlds of the examples below.\<close>

definition quiet_env :: env where
  "quiet_env =
     \<lparr>overpass_api = \<lambda>c. Inr [],
      geocode_api = \<lambda>lat lng. Inl ''unreachable'',
      nearby_api = \<lambda>location radius placeType. Inl ''unreachable'',
      details_api = \<lambda>placeId. Inl ''unreachable'',
      now = ''2025-05-27T08:00:00.000Z'',
      db_fault = \<lambda>k. None\<rparr>"

definition blank_service :: service where
  "blank_service =
     \<lparr>id = None, name = Some ''Unnamed Service'', type = ''other'', address = Some [],
      latitude = 0, longitude = 0, phone = [], email = [], website = Some [], hours = [],
      languages = Some [''en''], description = Some [], created_by = None,
      created_at = Some ''2025-05-01T00:00:00.000Z'',
      updated_at = Some ''2025-05-01T00:00:00.000Z'',
      osm_id = None, google_place_id = None, source = ''manual'', country = None\<rparr>"

definition stale_osm_row :: service where
  "stale_osm_row =
     blank_service\<lparr>id := Some 0, name := Some ''Closed Clinic'', type := ''clinic'',
       osm_id := Some ''node/1'', source := ''OSM'', country := Some ''Kenya''\<rparr>"

definition manual_row :: service where
  "manual_row =
     blank_service\<lparr>id := Some 1, name := Some ''Verified Clinic'', type := ''clinic'',
       created_by := Some ''user-1'', country := Some ''Kenya''\<rparr>"

definition clinic_element :: osm_element where
  "clinic_element =
     \<lparr>element_type = ''node'', element_id = ''2'', element_lat = -1.29, element_lon = 36.82,
      element_tags = map_of [(''name'', ''Nairobi Clinic''), (''healthcare'', ''clinic'')]\<rparr>"

definition kenya_env :: env where
  "kenya_env = quiet_env\<lparr>overpass_api := \<lambda>c. Inr [clinic_element]\<rparr>"

definition kenya_store :: store where
  "kenya_store = \<lparr>rows = [stale_osm_row, manual_row], next_id = 2\<rparr>"


definition center_place :: place where
  "center_place =
     \<lparr>place_name = Some ''Justice Center'', formatted_address = None,
      formatted_phone_number = None, international_phone_number = None,
      place_website = None, opening_hours = None, geometry = Some (32, 36),
      place_id = ''p2'', vicinity = Some ''Amman'', place_country = None\<rparr>"

definition jordan_env :: "place list \<Rightarrow> env" where
  "jordan_env found = quiet_env
     \<lparr>geocode_api := \<lambda>lat lng. Inr \<lparr>api_status = ''OK'',
          payload = Some [\<lparr>address_components = [(''Amman'', [''locality'']),
                                                   (''Jordan'', [''country'', ''political''])]\<rparr>]\<rparr>,
      nearby_api := \<lambda>location radius placeType. Inr \<lparr>api_status = ''OK'', payload = Some found\<rparr>\<rparr>"

text \<open>A world in which the geocoder finds no address at the coordinates it is asked
  for.\<close>

definition ocean_env :: env where
  "ocean_env = (jordan_env [center_place])
     \<lparr>geocode_api := \<lambda>lat lng. Inr \<lparr>api_status = ''ZERO_RESULTS'', payload = Some []\<rparr>\<rparr>"


text \<open>The payloads that \<open>formattedPlaces\<close> makes of the two example places (the
  office now with a geometry), a row imported earlier for the second place, and a table
  with that row and a manual one.\<close>

definition center_payload :: service where
  "center_payload =
     blank_service\<lparr>name := Some ''Justice Center'', type := ''legal'', address := Some ''Amman'',
       latitude := 32, longitude := 36,
       description := Some ''Service data from Google Places: Justice Center'',
       created_at := Some ''2025-05-27T08:00:00.000Z'',
       updated_at := Some ''2025-05-27T08:00:00.000Z'',
       google_place_id := Some ''p2'', source := ''GooglePlaces'', country := Some ''Jordan''\<rparr>"









section \<open>Properties of \<open>retryFetch\<close>\<close>

lemma try_fetch_ok: "try_fetch url sUrl fetch i w = (Inr resp, called, w') \<Longrightarrow> ok resp"
  by (auto simp: try_fetch_def split: if_splits prod.splits attempt.splits)

lemma try_fetch_edge_ok: "try_fetch_edge fetch url i w = (Inr resp, w') \<Longrightarrow> ok resp"
  by (auto simp: try_fetch_edge_def split: if_splits prod.splits attempt.splits)

lemma retryFetch_loop_post:
  "retry_inv (delay backoff random) i run \<Longrightarrow> i < retries \<Longrightarrow>
   retry_post (delay backoff random) retries (retryFetch_loop url sUrl fetch random retries backoff i run)"
proof (induction "retries - i" arbitrary: i run)
  case 0
  then show ?case by simp
next
  case (Suc n)
  obtain res called w' where f: "try_fetch url sUrl fetch i (world run) = (res, called, w')"
    by (cases "try_fetch url sUrl fetch i (world run)") auto
  show ?case
  proof (cases res)
    case (Inr resp)
    have "ok resp" using f Inr try_fetch_ok by fast
    then show ?thesis using Suc(3,4) f Inr
      by (subst retryFetch_loop.simps) (auto simp: retry_inv_def retry_post_def)
  next
    case (Inl e)
    show ?thesis
    proof (cases "i = retries - 1")
      case True
      then show ?thesis using Suc(3,4) f Inl
        by (subst retryFetch_loop.simps) (auto simp: retry_inv_def retry_post_def)
    next
      case False
      let ?run' = "run\<lparr>outcome := Inl (Some e), attempts := Suc i,
                            issued := issued run + (if called then 1 else 0),
                            failures := failures run @ [e], world := w'\<rparr>"
      let ?run'' = "?run'\<lparr>sleeps := sleeps ?run' @ [delay backoff random i]\<rparr>"
      have inv': "retry_inv (delay backoff random) (Suc i) ?run''"
        using Suc(3) by (auto simp: retry_inv_def)
      have lt: "Suc i < retries" using False Suc(4) by arith
      have n: "n = retries - Suc i" using Suc(2) by arith
      have eq: "retryFetch_loop url sUrl fetch random retries backoff i run
          = retryFetch_loop url sUrl fetch random retries backoff (Suc i) ?run''"
        using Suc(4) f Inl False by (subst retryFetch_loop.simps) (simp add: Let_def)
      show ?thesis unfolding eq using Suc(1)[OF n inv' lt] .
    qed
  qed
qed

lemma retryFetch_edge_loop_post:
  "retry_inv (\<lambda>i. 2 ^ i * 1000) i run \<Longrightarrow> i < retries \<Longrightarrow>
   retry_post (\<lambda>i. 2 ^ i * 1000) retries (retryFetch_edge_loop fetch url retries i run)"
proof (induction "retries - i" arbitrary: i run)
  case 0
  then show ?case by simp
next
  case (Suc n)
  obtain res w' where f: "try_fetch_edge fetch url i (world run) = (res, w')"
    by (cases "try_fetch_edge fetch url i (world run)") auto
  show ?case
  proof (cases res)
    case (Inr resp)
    have "ok resp" using f Inr try_fetch_edge_ok by fast
    then show ?thesis using Suc(3,4) f Inr
      by (subst retryFetch_edge_loop.simps) (auto simp: retry_inv_def retry_post_def)
  next
    case (Inl e)
    show ?thesis
    proof (cases "i = retries - 1")
      case True
      then show ?thesis using Suc(3,4) f Inl
        by (subst retryFetch_edge_loop.simps) (auto simp: retry_inv_def retry_post_def)
    next
      case False
      let ?run' = "run\<lparr>outcome := Inl (Some e), attempts := Suc i,
                            issued := Suc (issued run),
                            failures := failures run @ [e], world := w'\<rparr>"
      let ?run'' = "?run'\<lparr>sleeps := sleeps ?run' @ [2 ^ i * 1000]\<rparr>"
      have inv': "retry_inv (\<lambda>i. 2 ^ i * 1000) (Suc i) ?run''"
        using Suc(3) by (auto simp: retry_inv_def)
      have lt: "Suc i < retries" using False Suc(4) by arith
      have n: "n = retries - Suc i" using Suc(2) by arith
      have eq: "retryFetch_edge_loop fetch url retries i run
          = retryFetch_edge_loop fetch url retries (Suc i) ?run''"
        using Suc(4) f Inl False by (subst retryFetch_edge_loop.simps) (simp add: Let_def)
      show ?thesis unfolding eq using Suc(1)[OF n inv' lt] .
    qed
  qed
qed

lemma retry_inv_init:
  "retry_inv d 0 \<lparr>outcome = Inl None, attempts = 0, issued = 0, failures = [], sleeps = [], world = w\<rparr>"
  by (simp add: retry_inv_def)

lemma capped_sum:
  fixes xs :: "real list"
  assumes "\<forall>i<length xs. xs ! i \<le> c"
  shows "sum_list xs \<le> real (length xs) * c"
  using assms
proof (induction xs)
  case Nil
  then show ?case by simp
next
  case (Cons x xs)
  have "x \<le> c" using Cons.prems by auto
  moreover have "\<forall>i<length xs. xs ! i \<le> c" using Cons.prems by auto
  ultimately show ?case using Cons.IH by (simp add: algebra_simps)
qed

text \<open>
  Claim C7. With \<open>retries = 3\<close> a call makes at most three attempts (and issues at most
  as many \<open>fetch\<close> calls); after the failed attempt \<open>i\<close> (0-indexed) that is not the
  last one it sleeps \<open>min (backoff * 2^i + jitter) 5000\<close>, where \<open>jitter\<close> is
  \<open>Math.random() * 1000\<close>, in \<open>[0, 1000)\<close> when \<open>Math.random()\<close> is in \<open>[0, 1)\<close>;
  the sum of the delays is at most the sum of the caps, at most \<open>2 * 5000\<close>; a call that
  returns returns a response with \<open>ok\<close>, and a call that throws has made all three
  attempts and throws the failure of the last one. The edge function's variant sleeps
  \<open>2^i * 1000\<close>, which for its two delays is the same formula with jitter \<open>0\<close>.
\<close>

theorem retryFetch_three_attempts:
  "(let r = retryFetch url supabaseUrl fetch random 3 backoff w in
      issued r \<le> attempts r \<and> attempts r \<le> 3 \<and>
      length (sleeps r) = attempts r - 1 \<and>
      (\<forall>i<length (sleeps r). sleeps r ! i = min (backoff * 2 ^ i + jitter random i) 5000) \<and>
      sum_list (sleeps r) \<le> real (length (sleeps r)) * 5000 \<and>
      sum_list (sleeps r) \<le> 2 * 5000 \<and>
      (case outcome r of
         Inr resp \<Rightarrow> ok resp
       | Inl err \<Rightarrow> attempts r = 3 \<and> length (failures r) = 3 \<and> err = Some (last (failures r))))
   \<and> ((\<forall>i. 0 \<le> random i \<and> random i < 1) \<longrightarrow>
        (\<forall>i. 0 \<le> jitter random i \<and> jitter random i < 1000))
   \<and> (let e = retryFetch_edge fetch' url' 3 w' in
        issued e \<le> attempts e \<and> attempts e \<le> 3 \<and>
        length (sleeps e) = attempts e - 1 \<and>
        (\<forall>i<length (sleeps e). sleeps e ! i = min (1000 * 2 ^ i + 0) 5000) \<and>
        sum_list (sleeps e) \<le> 2 * 5000 \<and>
        (case outcome e of
           Inr resp \<Rightarrow> ok resp
         | Inl err \<Rightarrow> attempts e = 3 \<and> length (failures e) = 3 \<and> err = Some (last (failures e))))"
proof -
  define r where "r = retryFetch url supabaseUrl fetch random 3 backoff w"
  have pr: "retry_post (delay backoff random) 3 r"
    unfolding r_def retryFetch_def by (rule retryFetch_loop_post[OF retry_inv_init]) simp
  have len: "length (sleeps r) = attempts r - 1" using pr by (simp add: retry_post_def)
  have nth: "\<forall>i<length (sleeps r). sleeps r ! i = min (backoff * 2 ^ i + jitter random i) 5000"
    using pr by (simp add: retry_post_def delay_def)
  have cap: "\<forall>i<length (sleeps r). sleeps r ! i \<le> 5000" using nth by simp
  have s1: "sum_list (sleeps r) \<le> real (length (sleeps r)) * 5000" by (rule capped_sum[OF cap])
  have a3r: "attempts r \<le> 3" using pr by (simp add: retry_post_def)
  have "length (sleeps r) \<le> 2" using a3r len by arith
  then have "real (length (sleeps r)) * 5000 \<le> 2 * 5000" by simp
  then have s2: "sum_list (sleeps r) \<le> 2 * 5000" using s1 by linarith
  have A: "issued r \<le> attempts r \<and> attempts r \<le> 3 \<and>
      length (sleeps r) = attempts r - 1 \<and>
      (\<forall>i<length (sleeps r). sleeps r ! i = min (backoff * 2 ^ i + jitter random i) 5000) \<and>
      sum_list (sleeps r) \<le> real (length (sleeps r)) * 5000 \<and>
      sum_list (sleeps r) \<le> 2 * 5000 \<and>
      (case outcome r of
         Inr resp \<Rightarrow> ok resp
       | Inl err \<Rightarrow> attempts r = 3 \<and> length (failures r) = 3 \<and> err = Some (last (failures r)))"
    using pr len nth s1 s2 by (simp add: retry_post_def)
  have B: "(\<forall>i. 0 \<le> random i \<and> random i < 1) \<longrightarrow>
        (\<forall>i. 0 \<le> jitter random i \<and> jitter random i < 1000)"
    by (simp add: jitter_def)
  define e where "e = retryFetch_edge fetch' url' 3 w'"
  have pe: "retry_post (\<lambda>i. 2 ^ i * 1000) 3 e"
    unfolding e_def retryFetch_edge_def by (rule retryFetch_edge_loop_post[OF retry_inv_init]) simp
  have a3: "attempts e \<le> 3" and lene: "length (sleeps e) = attempts e - 1"
    using pe by (simp_all add: retry_post_def)
  have nthe0: "\<forall>i<length (sleeps e). sleeps e ! i = 2 ^ i * 1000"
    using pe by (simp add: retry_post_def)
  have nthe: "\<forall>i<length (sleeps e). sleeps e ! i = min (1000 * 2 ^ i + 0) 5000"
  proof (intro allI impI)
    fix i assume i: "i < length (sleeps e)"
    then have "i = 0 \<or> i = 1" using a3 lene by arith
    then show "sleeps e ! i = min (1000 * 2 ^ i + 0) 5000" using nthe0 i by auto
  qed
  have cape: "\<forall>i<length (sleeps e). sleeps e ! i \<le> 5000" using nthe by simp
  have "sum_list (sleeps e) \<le> real (length (sleeps e)) * 5000" by (rule capped_sum[OF cape])
  moreover have "real (length (sleeps e)) * 5000 \<le> 2 * 5000" using a3 lene by simp
  ultimately have se: "sum_list (sleeps e) \<le> 2 * 5000" by linarith
  have C: "issued e \<le> attempts e \<and> attempts e \<le> 3 \<and>
        length (sleeps e) = attempts e - 1 \<and>
        (\<forall>i<length (sleeps e). sleeps e ! i = min (1000 * 2 ^ i + 0) 5000) \<and>
        sum_list (sleeps e) \<le> 2 * 5000 \<and>
        (case outcome e of
           Inr resp \<Rightarrow> ok resp
         | Inl err \<Rightarrow> attempts e = 3 \<and> length (failures e) = 3 \<and> err = Some (last (failures e)))"
    using pe a3 lene nthe se by (simp add: retry_post_def)
  show ?thesis using A B C unfolding r_def e_def Let_def by blast
qed

theorem retryFetch_three_attempts_witness:
  "(let r = retryFetch ''https://project.supabase.co/functions/v1/osm-lookup'' (Some ''https://project.supabase.co'')
              (\<lambda>url i w. (if i < 2 then Rejects ''offline'' else Responds \<lparr>status = 200, body = ''{}''\<rparr>, w))
              (\<lambda>i. 1 / 2) 3 1000 ()
    in attempts r = 3 \<and> issued r = 3 \<and> sleeps r = [1500, 2500] \<and>
       outcome r = Inr \<lparr>status = 200, body = ''{}''\<rparr> \<and>
       failures r = [NetworkError ''offline'', NetworkError ''offline'']) \<and>
   (let e = retryFetch_edge (\<lambda>url i w. (Responds \<lparr>status = 500, body = ''down''\<rparr>, w))
              ''https://maps.googleapis.com/maps/api/geocode/json'' 3 ()
    in attempts e = 3 \<and> sleeps e = [1000, 2000] \<and> outcome e = Inl (Some (HttpError 500 ''down'')))"
  using retryFetch_three_attempts [of "''https://project.supabase.co/functions/v1/osm-lookup''"
     "Some ''https://project.supabase.co''"
     "\<lambda>url i w. (if i < 2 then Rejects ''offline'' else Responds \<lparr>status = 200, body = ''{}''\<rparr>, w)"
     "\<lambda>i. 1 / 2" 1000 "()"
     "\<lambda>url i w. (Responds \<lparr>status = 500, body = ''down''\<rparr>, w)"
     "''https://maps.googleapis.com/maps/api/geocode/json''" "()"]
  by (simp add: retryFetch_def retryFetch_edge_def retryFetch_loop.simps
        retryFetch_edge_loop.simps try_fetch_def try_fetch_edge_def
        falsy_str_def ok_def delay_def jitter_def Let_def)

section \<open>Properties of the deduplication\<close>

lemma fst_uniquePlaces_Cons:
  "fst (uniquePlaces key seen (p # ps)) =
     (if key p \<in> seen then fst (uniquePlaces key seen ps)
      else p # fst (uniquePlaces key (insert (key p) seen) ps))"
  by (simp split: prod.splits)



lemma uniquePlaces_keys:
  "key ` set (fst (uniquePlaces key seen xs)) = key ` set xs - seen"
  by (induction xs arbitrary: seen) (auto simp: fst_uniquePlaces_Cons simp del: uniquePlaces.simps(2))

lemma uniquePlaces_distinct: "distinct (map key (fst (uniquePlaces key seen xs)))"
proof (induction xs arbitrary: seen)
  case Nil
  then show ?case by simp
next
  case (Cons x xs)
  show ?case
  proof (cases "key x \<in> seen")
    case True
    then show ?thesis using Cons.IH by simp
  next
    case False
    have "key x \<notin> key ` set (fst (uniquePlaces key (insert (key x) seen) xs))"
      unfolding uniquePlaces_keys by simp
    then show ?thesis using False Cons.IH[of "insert (key x) seen"]
      by (simp add: fst_uniquePlaces_Cons del: uniquePlaces.simps(2))
  qed
qed

lemma uniquePlaces_subseq: "subseq (fst (uniquePlaces key seen xs)) xs"
  by (induction xs arbitrary: seen) (auto simp: fst_uniquePlaces_Cons simp del: uniquePlaces.simps(2))

lemma uniquePlaces_first:
  "x \<in> set (fst (uniquePlaces key seen xs)) \<Longrightarrow> find (\<lambda>y. key y = key x) xs = Some x"
proof (induction xs arbitrary: seen)
  case Nil
  then show ?case by simp
next
  case (Cons p ps)
  show ?case
  proof (cases "key p \<in> seen")
    case True
    then have x: "x \<in> set (fst (uniquePlaces key seen ps))"
      using Cons.prems by (simp add: fst_uniquePlaces_Cons del: uniquePlaces.simps(2))
    then have "key x \<in> key ` set ps - seen" using uniquePlaces_keys[of key seen ps] by blast
    then have "key p \<noteq> key x" using True by auto
    then show ?thesis using Cons.IH[OF x] by simp
  next
    case False
    then have "x = p \<or> x \<in> set (fst (uniquePlaces key (insert (key p) seen) ps))"
      using Cons.prems by (auto simp: fst_uniquePlaces_Cons simp del: uniquePlaces.simps(2))
    then show ?thesis
    proof
      assume "x = p" then show ?thesis by simp
    next
      assume x: "x \<in> set (fst (uniquePlaces key (insert (key p) seen) ps))"
      then have "key x \<in> key ` set ps - insert (key p) seen"
        using uniquePlaces_keys[of key "insert (key p) seen" ps] by blast
      then have "key p \<noteq> key x" by auto
      then show ?thesis using Cons.IH[OF x] by simp
    qed
  qed
qed

lemma uniquePlaces_id:
  "distinct (map key xs) \<Longrightarrow> key ` set xs \<inter> seen = {} \<Longrightarrow> fst (uniquePlaces key seen xs) = xs"
proof (induction xs arbitrary: seen)
  case Nil
  then show ?case by simp
next
  case (Cons x xs)
  have "key ` set xs \<inter> insert (key x) seen = {}" using Cons.prems by auto
  then have "fst (uniquePlaces key (insert (key x) seen) xs) = xs"
    using Cons.IH Cons.prems(1) by simp
  then show ?case using Cons.prems(2) by (simp add: fst_uniquePlaces_Cons del: uniquePlaces.simps(2))
qed

lemma distinct_keys_once:
  "distinct (map key xs) \<Longrightarrow> k \<in> key ` set xs \<Longrightarrow> length (filter (\<lambda>x. key x = k) xs) = 1"
proof (induction xs)
  case Nil
  then show ?case by simp
next
  case (Cons x xs)
  show ?case
  proof (cases "key x = k")
    case True
    then have "k \<notin> key ` set xs" using Cons.prems(1) by auto
    then have "filter (\<lambda>x. key x = k) xs = []" by (auto simp: filter_empty_conv)
    then show ?thesis using True by simp
  next
    case False
    then show ?thesis using Cons by auto
  qed
qed

text \<open>
  Claim C8. Starting from an empty set of seen keys, the kept items are a subsequence of
  the input; each kept item is the first item of the input with its key; every key of the
  input occurs on exactly one kept item; and deduplicating the output again (with a fresh
  set) returns it unchanged.
\<close>

theorem uniquePlaces_first_seen_wins:
  "(let out = fst (uniquePlaces key {} items) in
      subseq out items \<and>
      (\<forall>x\<in>set out. find (\<lambda>y. key y = key x) items = Some x) \<and>
      (\<forall>k\<in>key ` set items. length (filter (\<lambda>x. key x = k) out) = 1) \<and>
      distinct (map key out) \<and>
      fst (uniquePlaces key {} out) = out)"
proof -
  define out where "out = fst (uniquePlaces key {} items)"
  have d: "distinct (map key out)" unfolding out_def by (rule uniquePlaces_distinct)
  have k: "key ` set out = key ` set items" unfolding out_def uniquePlaces_keys by simp
  have once: "\<forall>k\<in>key ` set items. length (filter (\<lambda>x. key x = k) out) = 1"
    using distinct_keys_once[OF d] k by blast
  have "subseq out items" unfolding out_def by (rule uniquePlaces_subseq)
  moreover have "\<forall>x\<in>set out. find (\<lambda>y. key y = key x) items = Some x"
    unfolding out_def using uniquePlaces_first by fast
  moreover have "fst (uniquePlaces key {} out) = out" using d by (simp add: uniquePlaces_id)
  ultimately show ?thesis using d once unfolding out_def Let_def by blast
qed

theorem uniquePlaces_first_seen_wins_witness:
  "fst (uniquePlaces fst {} [(''a'', 1::nat), (''b'', 2), (''a'', 3), (''c'', 4), (''b'', 5)])
     = [(''a'', 1), (''b'', 2), (''c'', 4)] \<and>
   fst (uniquePlaces fst {} [(''a'', 1::nat), (''b'', 2), (''c'', 4)]) = [(''a'', 1), (''b'', 2), (''c'', 4)] \<and>
   find (\<lambda>y. fst y = ''a'') [(''a'', 1::nat), (''b'', 2), (''a'', 3), (''c'', 4), (''b'', 5)] = Some (''a'', 1)"
  using uniquePlaces_first_seen_wins [of fst "[(''a'', 1::nat), (''b'', 2), (''a'', 3), (''c'', 4), (''b'', 5)]"]
  by simp

section \<open>Properties of the aggregation\<close>

lemma allServices_sorted: "sorted (map priority (allServices i os g))"
  by (auto simp: allServices_def sorted_append comp_def map_replicate_const)

lemma sortedServices_allServices:
  "sortedServices (allServices i os g) = take 5 (allServices i os g)"
  by (simp add: sortedServices_def sort_key_id_if_sorted[OF allServices_sorted])

lemma filter_take_all: "\<forall>x\<in>set xs. P x \<Longrightarrow> filter P (take n xs) = take n xs"
  by (metis filter_True in_set_takeD)

lemma filter_take_none: "\<forall>x\<in>set xs. \<not> P x \<Longrightarrow> filter P (take n xs) = []"
  by (metis filter_False in_set_takeD)

lemma buckets_of_take:
  "filter (\<lambda>s. priority s = 1) (take 5 (allServices (Some i) (Some os) (Some g)))
     = take 5 (map (\<lambda>s. \<lparr>item = s, priority = 1, badge = ''Verified''\<rparr>) i)"
  "filter (\<lambda>s. priority s = 2) (take 5 (allServices (Some i) (Some os) (Some g)))
     = take (5 - length i) (map (\<lambda>s. \<lparr>item = s, priority = 2, badge = ''OSM''\<rparr>) os)"
  "filter (\<lambda>s. priority s = 3) (take 5 (allServices (Some i) (Some os) (Some g)))
     = take (5 - length i - length os) (map (\<lambda>s. \<lparr>item = s, priority = 3, badge = ''GooglePlaces''\<rparr>) g)"
  by (simp_all add: allServices_def or_empty_def filter_take_all filter_take_none)

text \<open>
  Claim C1. When the three sources answer, the result is the first five items of the
  internal items (priority 1), then the OSM items (priority 2), then the Google items
  (priority 3), each bucket in its input order; with 2, 2 and 4 items these are the two
  internal items, the two OSM items and the first Google item. The sort of
  \<open>sortedServices\<close> is ascending in the priority and stable, and the result is its
  first five items.
\<close>

theorem searchServices_merge_order:
  "(let r = searchServices \<lparr>data = Some i, query_error = None\<rparr>
              (Inr (WithServices os) :: 'e + 'a parsed) (Inr (WithServices g))
    in error r = None
     \<and> internal r @ osm r @ google r = take 5 (allServices (Some i) (Some os) (Some g))
     \<and> internal r = take 5 (map (\<lambda>s. \<lparr>item = s, priority = 1, badge = ''Verified''\<rparr>) i)
     \<and> osm r = take (5 - length i) (map (\<lambda>s. \<lparr>item = s, priority = 2, badge = ''OSM''\<rparr>) os)
     \<and> google r = take (5 - length i - length os)
                     (map (\<lambda>s. \<lparr>item = s, priority = 3, badge = ''GooglePlaces''\<rparr>) g)
     \<and> (length i = 2 \<and> length os = 2 \<and> length g = 4 \<longrightarrow>
          internal r = map (\<lambda>s. \<lparr>item = s, priority = 1, badge = ''Verified''\<rparr>) i
        \<and> osm r = map (\<lambda>s. \<lparr>item = s, priority = 2, badge = ''OSM''\<rparr>) os
        \<and> google r = [\<lparr>item = hd g, priority = 3, badge = ''GooglePlaces''\<rparr>]))
   \<and> sorted (map priority (sort_key priority xs))
   \<and> (\<forall>k. filter (\<lambda>s. priority s = k) (sort_key priority xs) = filter (\<lambda>s. priority s = k) xs)
   \<and> sortedServices xs = take 5 (sort_key priority xs)"
proof -
  define r where "r = searchServices \<lparr>data = Some i, query_error = None\<rparr>
              (Inr (WithServices os) :: 'e + 'a parsed) (Inr (WithServices g))"
  have e: "error r = None" by (simp add: r_def searchServices_def services_property_def Let_def)
  have b1: "internal r = take 5 (map (\<lambda>s. \<lparr>item = s, priority = 1, badge = ''Verified''\<rparr>) i)"
    using buckets_of_take(1)[of i os g] by (simp add: r_def searchServices_def services_property_def Let_def sortedServices_allServices)
  have b2: "osm r = take (5 - length i) (map (\<lambda>s. \<lparr>item = s, priority = 2, badge = ''OSM''\<rparr>) os)"
    using buckets_of_take(2)[of i os g] by (simp add: r_def searchServices_def services_property_def Let_def sortedServices_allServices)
  have b3: "google r = take (5 - length i - length os)
                     (map (\<lambda>s. \<lparr>item = s, priority = 3, badge = ''GooglePlaces''\<rparr>) g)"
    using buckets_of_take(3)[of i os g] by (simp add: r_def searchServices_def services_property_def Let_def sortedServices_allServices)
  have cat: "internal r @ osm r @ google r = take 5 (allServices (Some i) (Some os) (Some g))"
    unfolding b1 b2 b3 by (simp add: allServices_def or_empty_def)
  have scen: "length i = 2 \<and> length os = 2 \<and> length g = 4 \<longrightarrow>
          internal r = map (\<lambda>s. \<lparr>item = s, priority = 1, badge = ''Verified''\<rparr>) i
        \<and> osm r = map (\<lambda>s. \<lparr>item = s, priority = 2, badge = ''OSM''\<rparr>) os
        \<and> google r = [\<lparr>item = hd g, priority = 3, badge = ''GooglePlaces''\<rparr>]"
  proof (intro impI)
    assume h: "length i = 2 \<and> length os = 2 \<and> length g = 4"
    then obtain x xs where g: "g = x # xs" by (cases g) auto
    show "internal r = map (\<lambda>s. \<lparr>item = s, priority = 1, badge = ''Verified''\<rparr>) i
        \<and> osm r = map (\<lambda>s. \<lparr>item = s, priority = 2, badge = ''OSM''\<rparr>) os
        \<and> google r = [\<lparr>item = hd g, priority = 3, badge = ''GooglePlaces''\<rparr>]"
      unfolding b1 b2 b3 using h g by simp
  qed
  have st: "\<forall>k. filter (\<lambda>s. priority s = k) (sort_key priority xs) = filter (\<lambda>s. priority s = k) xs"
    by (simp add: sort_key_stable)
  show ?thesis
    unfolding Let_def r_def[symmetric]
    using e cat b1 b2 b3 scen st by (simp add: sortedServices_def)
qed

theorem searchServices_merge_order_witness:
  "(let r = searchServices \<lparr>data = Some [''m1'', ''m2''], query_error = None\<rparr>
              (Inr (WithServices [''o1'', ''o2'']) :: unit + string parsed)
              (Inr (WithServices [''g1'', ''g2'', ''g3'', ''g4'']))
    in internal r = [\<lparr>item = ''m1'', priority = 1, badge = ''Verified''\<rparr>,
                     \<lparr>item = ''m2'', priority = 1, badge = ''Verified''\<rparr>]
     \<and> osm r = [\<lparr>item = ''o1'', priority = 2, badge = ''OSM''\<rparr>,
                \<lparr>item = ''o2'', priority = 2, badge = ''OSM''\<rparr>]
     \<and> google r = [\<lparr>item = ''g1'', priority = 3, badge = ''GooglePlaces''\<rparr>]
     \<and> error r = None)"
  using searchServices_merge_order [of "[''m1'', ''m2'']" "[''o1'', ''o2'']"
          "[''g1'', ''g2'', ''g3'', ''g4'']" "[]", where ?'e = unit]
  by (simp add: Let_def searchServices_def services_property_def sortedServices_def allServices_def
        or_empty_def)

text \<open>
  Claim C2, as amended. When the query of the table succeeds, an edge function whose
  call failed (\<open>retryFetch\<close> or \<open>response.json()\<close> threw) counts as one that
  returned no service: its bucket is empty, the other results are as they would be, and
  when both calls failed the result is the first five internal items with \<open>error\<close>
  \<open>null\<close>. The \<open>error\<close> of the result is \<open>null\<close> unless a reply that was
  received parses to \<open>null\<close> or has a truthy \<open>services\<close> that is not an array.
  When the query of the table fails, the result has the three buckets empty and the
  error \<open>Database error: ...\<close>, whatever the edge functions returned. So \<open>error\<close>
  is set exactly when the query of the table fails or one of the two replies is of that
  kind, and then the three buckets are empty.
\<close>

theorem searchServices_partial_failure:
  "(query_error q = None \<longrightarrow>
      searchServices q (Inl e) googleFetch = searchServices q (Inr (WithServices [])) googleFetch
    \<and> searchServices q osmFetch (Inl e) = searchServices q osmFetch (Inr (WithServices []))
    \<and> osm (searchServices q (Inl e) googleFetch) = []
    \<and> google (searchServices q osmFetch (Inl e)) = []
    \<and> searchServices q (Inl e) (Inl e)
        = \<lparr>internal = take 5 (map (\<lambda>s. \<lparr>item = s, priority = 1, badge = ''Verified''\<rparr>)
                                 (or_empty (data q))),
           osm = [], google = [], error = None\<rparr>
    \<and> (\<not> malformed osmFetch \<and> \<not> malformed googleFetch \<longrightarrow>
          error (searchServices q osmFetch googleFetch) = None)
    \<and> (malformed osmFetch \<or> malformed googleFetch \<longrightarrow>
          error (searchServices q osmFetch googleFetch) \<noteq> None))
   \<and> (query_error q = Some message \<longrightarrow>
        searchServices q osmFetch googleFetch
          = \<lparr>internal = [], osm = [], google = [],
             error = Some (Message (''Database error: '' @ message))\<rparr>)
   \<and> (error (searchServices q osmFetch googleFetch) \<noteq> None
        \<longleftrightarrow> query_error q \<noteq> None \<or> malformed osmFetch \<or> malformed googleFetch)
   \<and> (error (searchServices q osmFetch googleFetch) \<noteq> None \<longrightarrow>
        internal (searchServices q osmFetch googleFetch) = []
      \<and> osm (searchServices q osmFetch googleFetch) = []
      \<and> google (searchServices q osmFetch googleFetch) = [])"
proof -
  have none: "filter (\<lambda>s. priority s = 2) (sortedServices (allServices i (Some []) g)) = []"
    "filter (\<lambda>s. priority s = 3) (sortedServices (allServices i os (Some []))) = []"
    for i os g :: "'a list option"
    unfolding sortedServices_allServices
    by (auto simp: allServices_def or_empty_def filter_empty_conv dest!: in_set_takeD)
  have both: "filter (\<lambda>s. priority s = Suc 0) (sortedServices (allServices i (Some []) (Some [])))
                = take 5 (map (\<lambda>s. \<lparr>item = s, priority = 1, badge = ''Verified''\<rparr>) (or_empty i))"
    for i :: "'a list option"
    unfolding sortedServices_allServices
    by (simp add: allServices_def or_empty_def filter_take_all)
  show ?thesis
  proof (cases "query_error q")
    case (Some m)
    then show ?thesis by (simp add: searchServices_def caught_def)
  next
    case None
    have iso: "searchServices q (Inl e) googleFetch
                 = searchServices q (Inr (WithServices [])) googleFetch"
      "searchServices q osmFetch (Inl e) = searchServices q osmFetch (Inr (WithServices []))"
      using None by (simp_all add: searchServices_def)
    have bo: "osm (searchServices q (Inl e) googleFetch) = []"
      using None none
      by (simp add: searchServices_def services_property_def caught_def Let_def
            split: sum.splits parsed.splits)
    have bg: "google (searchServices q osmFetch (Inl e)) = []"
      using None none
      by (simp add: searchServices_def services_property_def caught_def Let_def
            split: sum.splits parsed.splits)
    have bb: "searchServices q (Inl e) (Inl e)
        = \<lparr>internal = take 5 (map (\<lambda>s. \<lparr>item = s, priority = 1, badge = ''Verified''\<rparr>)
                                 (or_empty (data q))),
           osm = [], google = [], error = None\<rparr>"
      using None none both
      by (simp add: searchServices_def services_property_def Let_def)
    have err: "error (searchServices q osmFetch googleFetch) \<noteq> None
                 \<longleftrightarrow> malformed osmFetch \<or> malformed googleFetch"
      using None
      by (auto simp: searchServices_def services_property_def caught_def malformed_def Let_def
            split: sum.splits parsed.splits)
    have empty: "error (searchServices q osmFetch googleFetch) \<noteq> None \<longrightarrow>
        internal (searchServices q osmFetch googleFetch) = []
      \<and> osm (searchServices q osmFetch googleFetch) = []
      \<and> google (searchServices q osmFetch googleFetch) = []"
      using None
      by (auto simp: searchServices_def services_property_def caught_def Let_def
            split: sum.splits parsed.splits)
    have e1: "\<not> malformed osmFetch \<and> \<not> malformed googleFetch \<longrightarrow>
          error (searchServices q osmFetch googleFetch) = None"
      using err by blast
    have e2: "malformed osmFetch \<or> malformed googleFetch \<longrightarrow>
          error (searchServices q osmFetch googleFetch) \<noteq> None"
      using err by blast
    have e3: "error (searchServices q osmFetch googleFetch) \<noteq> None
        \<longleftrightarrow> query_error q \<noteq> None \<or> malformed osmFetch \<or> malformed googleFetch"
      using err None by simp
    have e4: "query_error q \<noteq> Some message" using None by simp
    show ?thesis using None iso bo bg bb e1 e2 e3 e4 empty by blast
  qed
qed

theorem searchServices_partial_failure_witness:
  "searchServices \<lparr>data = Some [''m1''], query_error = None\<rparr> (Inl ''osm down'')
       (Inr (WithServices [''g1'']))
     = \<lparr>internal = [\<lparr>item = ''m1'', priority = 1, badge = ''Verified''\<rparr>], osm = [],
        google = [\<lparr>item = ''g1'', priority = 3, badge = ''GooglePlaces''\<rparr>], error = None\<rparr>
   \<and> searchServices \<lparr>data = None, query_error = Some ''timeout''\<rparr> (Inl ''osm down'')
        (Inl ''google down'' :: string + string parsed)
     = \<lparr>internal = [], osm = [], google = [],
        error = Some (Message ''Database error: timeout'')\<rparr>
   \<and> searchServices \<lparr>data = Some [''m1''], query_error = None\<rparr> (Inr JsonNull)
        (Inr (WithServices [''g1'']) :: string + string parsed)
     = \<lparr>internal = [], osm = [], google = [], error = Some (MessageOf ServicesOfNull)\<rparr>"
proof -
  let ?q = "\<lparr>data = Some [''m1''], query_error = None\<rparr>"
  let ?g = "Inr (WithServices [''g1'']) :: string + string parsed"
  have a: "searchServices ?q (Inl ''osm down'') ?g
     = \<lparr>internal = [\<lparr>item = ''m1'', priority = 1, badge = ''Verified''\<rparr>], osm = [],
        google = [\<lparr>item = ''g1'', priority = 3, badge = ''GooglePlaces''\<rparr>], error = None\<rparr>"
    using searchServices_partial_failure [of ?q "''osm down''" ?g "Inl ''osm down''" "''timeout''"]
    by (simp add: searchServices_def services_property_def Let_def sortedServices_def
          allServices_def or_empty_def malformed_def)
  have b: "searchServices \<lparr>data = None, query_error = Some ''timeout''\<rparr> (Inl ''osm down'')
        (Inl ''google down'' :: string + string parsed)
     = \<lparr>internal = [], osm = [], google = [],
        error = Some (Message ''Database error: timeout'')\<rparr>"
    using searchServices_partial_failure
          [of "\<lparr>data = None, query_error = Some ''timeout''\<rparr>" "''osm down''"
              "Inl ''google down'' :: string + string parsed" "Inl ''osm down''" "''timeout''"]
    by simp
  have m: "malformed (Inr JsonNull :: string + string parsed)" by (simp add: malformed_def)
  have "error (searchServices ?q (Inr JsonNull) ?g) \<noteq> None
        \<and> internal (searchServices ?q (Inr JsonNull) ?g) = []
        \<and> osm (searchServices ?q (Inr JsonNull) ?g) = []
        \<and> google (searchServices ?q (Inr JsonNull) ?g) = []"
    using searchServices_partial_failure [of ?q "''osm down''" ?g "Inr JsonNull" "''timeout''"] m
    by blast
  then have c: "searchServices ?q (Inr JsonNull) ?g
     = \<lparr>internal = [], osm = [], google = [], error = Some (MessageOf ServicesOfNull)\<rparr>"
    by (simp add: searchServices_def services_property_def caught_def)
  show ?thesis using a b c by simp
qed

text \<open>The claim as stated fails when only the table fails: the OSM and Google
  services that were returned are not in the result, and \<open>error\<close> is set.\<close>

theorem internal_failure_counterexample:
  "searchServices \<lparr>data = None, query_error = Some ''timeout''\<rparr>
       (Inr (WithServices [''o1'']) :: string + string parsed) (Inr (WithServices [''g1'']))
     = \<lparr>internal = [], osm = [], google = [],
        error = Some (Message ''Database error: timeout'')\<rparr>"
  by (simp add: searchServices_def caught_def)

section \<open>Properties of the google-places request handler\<close>

lemma searchLocation_not_object:
  "(\<forall>props. v \<noteq> JObj props) \<Longrightarrow> searchLocation (Some v) = (0, 0)"
  by (cases v) (simp_all add: searchLocation_def property_def typeof_number_def)

text \<open>
  Claim C10, as amended. A request without a location, or whose location is not an
  object with numbers for \<open>lat\<close> and \<open>lng\<close>, is not refused for that: the search is
  centred at \<open>(0, 0)\<close>; a location with the two numbers is used as given; a request
  without radius searches with radius 50000. The handler goes on with the result of
  \<open>searchNearbyPlaces\<close> at these arguments (only a missing \<open>type\<close> is refused before
  the search), so that the request is answered as one that names \<open>{lat: 0, lng: 0}\<close>
  and the radius 50000. The search begins with the country of \<open>(0, 0)\<close>: when the
  geocoder cannot be fetched, or answers with a status that is not \<open>OK\<close> or without
  results, \<open>getCountryFromCoordinates\<close> throws and the handler answers 500 and leaves
  the table; when the country is found, the places are searched around \<open>(0, 0)\<close> with
  radius 50000 for each place type.
\<close>

theorem missing_location_defaults:
  "searchLocation None = (0, 0)
   \<and> ((\<forall>props. v \<noteq> JObj props) \<longrightarrow> searchLocation (Some v) = (0, 0))
   \<and> ((\<forall>x. property (Some (JObj props)) ''lat'' \<noteq> Some (JNum x))
        \<or> (\<forall>y. property (Some (JObj props)) ''lng'' \<noteq> Some (JNum y))
        \<longrightarrow> searchLocation (Some (JObj props)) = (0, 0))
   \<and> (property (Some (JObj props)) ''lat'' = Some (JNum x)
        \<and> property (Some (JObj props)) ''lng'' = Some (JNum y)
        \<longrightarrow> searchLocation (Some (JObj props)) = (x, y))
   \<and> searchLocation (Some (JObj [(''lat'', JNum x), (''lng'', JNum y)])) = (x, y)
   \<and> searchRadius None = JNum 50000
   \<and> (searchLocation location = (0, 0) \<and> t \<noteq> [] \<longrightarrow>
        google_places env \<lparr>req_location = location, req_type = Some t, req_radius = None\<rparr> st
          = persist_and_respond env t (searchNearbyPlaces env (0, 0) t (JNum 50000)) st)
   \<and> (searchLocation location = (0, 0) \<longrightarrow>
        google_places env \<lparr>req_location = location, req_type = Some t, req_radius = None\<rparr> st
          = google_places env
              \<lparr>req_location = Some (JObj [(''lat'', JNum 0), (''lng'', JNum 0)]),
               req_type = Some t, req_radius = Some (JNum 50000)\<rparr> st)
   \<and> (geocode_api env 0 0 = Inl msg \<longrightarrow>
        getCountryFromCoordinates env 0 0 = Inl (FetchFailed msg))
   \<and> (geocode_api env 0 0 = Inr answer
        \<and> (api_status answer \<noteq> ''OK'' \<or> payload answer = None \<or> payload answer = Some [])
        \<longrightarrow> getCountryFromCoordinates env 0 0 = Inl CountryNotFound)
   \<and> (searchLocation location = (0, 0) \<and> t \<noteq> []
        \<and> getCountryFromCoordinates env 0 0 = Inl e \<longrightarrow>
        google_places env \<lparr>req_location = location, req_type = Some t, req_radius = radius\<rparr> st
          = (\<lparr>status = 500, body = Failure e\<rparr>, st))
   \<and> (searchLocation location = (0, 0)
        \<and> getCountryFromCoordinates env 0 0 = Inr c \<and> placeTypes t = Inr ts \<longrightarrow>
        searchNearbyPlaces env (searchLocation location) t (searchRadius None)
          = Inr (search_types env (0, 0) (JNum 50000) c {} ts))"
proof -
  have a: "searchLocation None = (0, 0)"
    by (simp add: searchLocation_def truthy_def)
  have c: "(\<forall>x. property (Some (JObj props)) ''lat'' \<noteq> Some (JNum x))
        \<or> (\<forall>y. property (Some (JObj props)) ''lng'' \<noteq> Some (JNum y))
        \<longrightarrow> searchLocation (Some (JObj props)) = (0, 0)"
    by (auto simp: searchLocation_def typeof_number_def split: option.splits json.splits)
  have d: "property (Some (JObj props)) ''lat'' = Some (JNum x)
        \<and> property (Some (JObj props)) ''lng'' = Some (JNum y)
        \<longrightarrow> searchLocation (Some (JObj props)) = (x, y)"
    by (simp add: searchLocation_def typeof_number_def typeof_object_def truthy_def number_of_def)
  have e: "searchLocation (Some (JObj [(''lat'', JNum x), (''lng'', JNum y)])) = (x, y)" for x y
    by (simp add: searchLocation_def typeof_number_def typeof_object_def truthy_def
          number_of_def property_def)
  have f: "searchRadius None = JNum 50000" by (simp add: searchRadius_def)
  have f': "searchRadius (Some (JNum 50000)) = JNum 50000"
    by (simp add: searchRadius_def truthy_def)
  have g: "searchLocation location = (0, 0) \<and> t \<noteq> [] \<longrightarrow>
        google_places env \<lparr>req_location = location, req_type = Some t, req_radius = None\<rparr> st
          = persist_and_respond env t (searchNearbyPlaces env (0, 0) t (JNum 50000)) st"
    by (simp add: google_places_def f)
  have h: "searchLocation location = (0, 0) \<longrightarrow>
        google_places env \<lparr>req_location = location, req_type = Some t, req_radius = None\<rparr> st
          = google_places env
              \<lparr>req_location = Some (JObj [(''lat'', JNum 0), (''lng'', JNum 0)]),
               req_type = Some t, req_radius = Some (JNum 50000)\<rparr> st"
    by (simp add: google_places_def f f' e)
  have i: "geocode_api env 0 0 = Inl msg \<longrightarrow>
        getCountryFromCoordinates env 0 0 = Inl (FetchFailed msg)"
    by (simp add: getCountryFromCoordinates_def)
  have j: "geocode_api env 0 0 = Inr answer
        \<and> (api_status answer \<noteq> ''OK'' \<or> payload answer = None \<or> payload answer = Some [])
        \<longrightarrow> getCountryFromCoordinates env 0 0 = Inl CountryNotFound"
    by (auto simp: getCountryFromCoordinates_def split: option.splits list.splits bool.splits)
  have k: "searchLocation location = (0, 0) \<and> t \<noteq> []
        \<and> getCountryFromCoordinates env 0 0 = Inl e \<longrightarrow>
        google_places env \<lparr>req_location = location, req_type = Some t, req_radius = radius\<rparr> st
          = (\<lparr>status = 500, body = Failure e\<rparr>, st)"
    by (simp add: google_places_def searchNearbyPlaces_def persist_and_respond_def
          error_response_def)
  have l: "searchLocation location = (0, 0)
        \<and> getCountryFromCoordinates env 0 0 = Inr c \<and> placeTypes t = Inr ts \<longrightarrow>
        searchNearbyPlaces env (searchLocation location) t (searchRadius None)
          = Inr (search_types env (0, 0) (JNum 50000) c {} ts)"
    by (simp add: searchNearbyPlaces_def f)
  show ?thesis using a searchLocation_not_object c d e f g h i j k l by blast
qed

theorem missing_location_defaults_witness:
  "searchLocation (Some JNull) = (0, 0)
   \<and> searchLocation (Some (JObj [(''lat'', JStr ''31.95''), (''lng'', JNum 35.93)])) = (0, 0)
   \<and> searchLocation (Some (JObj [(''lat'', JNum 31.95), (''lng'', JNum 35.93)])) = (31.95, 35.93)
   \<and> searchRadius None = JNum 50000
   \<and> searchNearbyPlaces (jordan_env [center_place]) (searchLocation (Some JNull)) ''legal''
        (searchRadius None)
      = Inr [center_place\<lparr>place_country := Some ''Jordan''\<rparr>]
   \<and> google_places (jordan_env [center_place])
        \<lparr>req_location = Some JNull, req_type = Some ''legal'', req_radius = None\<rparr>
        \<lparr>rows = [], next_id = 0\<rparr>
      = (success_response [center_payload],
         \<lparr>rows = [center_payload\<lparr>id := Some 0\<rparr>], next_id = 1\<rparr>)
   \<and> getCountryFromCoordinates quiet_env 0 0 = Inl (FetchFailed ''unreachable'')
   \<and> getCountryFromCoordinates ocean_env 0 0 = Inl CountryNotFound
   \<and> google_places ocean_env
        \<lparr>req_location = Some JNull, req_type = Some ''legal'', req_radius = None\<rparr>
        \<lparr>rows = [], next_id = 0\<rparr>
      = (\<lparr>status = 500, body = Failure CountryNotFound\<rparr>, \<lparr>rows = [], next_id = 0\<rparr>)"
proof -
  let ?env = "jordan_env [center_place]"
  let ?st = "\<lparr>rows = [], next_id = 0\<rparr>"
  let ?zero = "\<lparr>api_status = ''ZERO_RESULTS'', payload = Some []\<rparr> :: geocode_result list api_reply"
  note d = missing_location_defaults [of JNull "[(''lat'', JStr ''31.95''), (''lng'', JNum 35.93)]"
          "31.95" "35.93" "Some JNull" "''legal''" ?env ?st "''unreachable''" ?zero
          CountryNotFound None "''Jordan''" "[''lawyer'']"]
  note o = missing_location_defaults [of JNull "[(''lat'', JStr ''31.95''), (''lng'', JNum 35.93)]"
          "31.95" "35.93" "Some JNull" "''legal''" ocean_env ?st "''unreachable''" ?zero
          CountryNotFound None]
  note q = missing_location_defaults [of JNull "[(''lat'', JStr ''31.95''), (''lng'', JNum 35.93)]"
          "31.95" "35.93" "Some JNull" "''legal''" quiet_env ?st "''unreachable''"]
  have z: "searchLocation (Some JNull) = (0, 0)" using d by blast
  have "google_places ?env \<lparr>req_location = Some JNull, req_type = Some ''legal'', req_radius = None\<rparr> ?st
          = persist_and_respond ?env ''legal'' (searchNearbyPlaces ?env (0, 0) ''legal'' (JNum 50000)) ?st"
    using d z by simp
  moreover have "persist_and_respond ?env ''legal''
                   (searchNearbyPlaces ?env (0, 0) ''legal'' (JNum 50000)) ?st
          = (success_response [center_payload],
             \<lparr>rows = [center_payload\<lparr>id := Some 0\<rparr>], next_id = 1\<rparr>)"
    by code_simp
  moreover have "searchLocation (Some (JObj [(''lat'', JStr ''31.95''), (''lng'', JNum 35.93)])) = (0, 0)"
    "searchLocation (Some (JObj [(''lat'', JNum 31.95), (''lng'', JNum 35.93)])) = (31.95, 35.93)"
    "searchRadius None = JNum 50000"
    using d by (simp_all add: property_def)
  moreover have "searchNearbyPlaces ?env (searchLocation (Some JNull)) ''legal'' (searchRadius None)
      = Inr [center_place\<lparr>place_country := Some ''Jordan''\<rparr>]"
  proof -
    have c: "getCountryFromCoordinates ?env 0 0 = Inr ''Jordan''" by code_simp
    have ts: "placeTypes ''legal'' = Inr [''lawyer'']" by code_simp
    have "searchLocation (Some JNull) = (0, 0)
        \<and> getCountryFromCoordinates ?env 0 0 = Inr ''Jordan''
        \<and> placeTypes ''legal'' = Inr [''lawyer''] \<longrightarrow>
        searchNearbyPlaces ?env (searchLocation (Some JNull)) ''legal'' (searchRadius None)
          = Inr (search_types ?env (0, 0) (JNum 50000) ''Jordan'' {} [''lawyer''])"
      using d by blast
    moreover have "search_types ?env (0, 0) (JNum 50000) ''Jordan'' {} [''lawyer'']
                     = [center_place\<lparr>place_country := Some ''Jordan''\<rparr>]"
      by (simp add: jordan_env_def quiet_env_def getPlaceDetails_def spread_def center_place_def)
    ultimately show ?thesis using z c ts by simp
  qed
  moreover have "getCountryFromCoordinates quiet_env 0 0 = Inl (FetchFailed ''unreachable'')"
  proof -
    have "geocode_api quiet_env 0 0 = Inl ''unreachable''" by (simp add: quiet_env_def)
    moreover have "geocode_api quiet_env 0 0 = Inl ''unreachable'' \<longrightarrow>
        getCountryFromCoordinates quiet_env 0 0 = Inl (FetchFailed ''unreachable'')"
      using q by blast
    ultimately show ?thesis by simp
  qed
  moreover have nf: "getCountryFromCoordinates ocean_env 0 0 = Inl CountryNotFound"
  proof -
    have geo: "geocode_api ocean_env 0 0 = Inr ?zero"
      by (simp add: ocean_env_def jordan_env_def quiet_env_def)
    have "geocode_api ocean_env 0 0 = Inr ?zero
        \<and> (api_status ?zero \<noteq> ''OK'' \<or> payload ?zero = None \<or> payload ?zero = Some [])
        \<longrightarrow> getCountryFromCoordinates ocean_env 0 0 = Inl CountryNotFound"
      using o by blast
    then show ?thesis using geo by simp
  qed
  moreover have "google_places ocean_env
        \<lparr>req_location = Some JNull, req_type = Some ''legal'', req_radius = None\<rparr> ?st
      = (\<lparr>status = 500, body = Failure CountryNotFound\<rparr>, ?st)"
  proof -
    have "searchLocation (Some JNull) = (0, 0) \<and> ''legal'' \<noteq> []
        \<and> getCountryFromCoordinates ocean_env 0 0 = Inl CountryNotFound \<longrightarrow>
        google_places ocean_env
          \<lparr>req_location = Some JNull, req_type = Some ''legal'', req_radius = None\<rparr> ?st
          = (\<lparr>status = 500, body = Failure CountryNotFound\<rparr>, ?st)"
      using o by blast
    then show ?thesis using z nf by simp
  qed
  ultimately show ?thesis using z by simp
qed

text \<open>The claim as stated fails where the geocoder finds no address at \<open>(0, 0)\<close>: the
  request without location is answered 500, although Nearby Search would have returned
  a place.\<close>

theorem missing_location_fails_counterexample:
  "google_places ocean_env
       \<lparr>req_location = None, req_type = Some ''legal'', req_radius = None\<rparr>
       \<lparr>rows = [], next_id = 0\<rparr>
     = (\<lparr>status = 500, body = Failure CountryNotFound\<rparr>, \<lparr>rows = [], next_id = 0\<rparr>)
   \<and> nearby_api ocean_env (0, 0) (JNum 50000) ''lawyer''
     = Inr \<lparr>api_status = ''OK'', payload = Some [center_place]\<rparr>"
  by (simp add: google_places_def searchLocation_def truthy_def searchRadius_def
        searchNearbyPlaces_def getCountryFromCoordinates_def persist_and_respond_def
        error_response_def ocean_env_def jordan_env_def quiet_env_def)

section \<open>Properties of the osm-lookup handler\<close>

lemma number_from_map:
  "(\<And>p x. f (p\<lparr>id := x\<rparr>) = f p) \<Longrightarrow> map f (number_from n ps) = map f ps"
  by (induction ps arbitrary: n) auto

lemma number_from_filter_all:
  assumes "\<And>p x. P (p\<lparr>id := x\<rparr>) = P p" and "\<forall>p\<in>set ps. P p"
  shows "filter P (number_from n ps) = number_from n ps"
  using assms(2) by (induction ps arbitrary: n) (auto simp: assms(1))

lemma number_from_filter_none:
  assumes "\<And>p x. P (p\<lparr>id := x\<rparr>) = P p" and "\<forall>p\<in>set ps. \<not> P p"
  shows "filter P (number_from n ps) = []"
  using assms(2) by (induction ps arbitrary: n) (auto simp: assms(1))

lemma fetched_is_osm_of_country:
  "fetchOsmServices env c = Inr svcs \<Longrightarrow>
   \<forall>p\<in>set (map (osmRow env) svcs). source p = ''OSM'' \<and> country p = Some c"
  by (auto simp: fetchOsmServices_def osmRow_def osmService_def split: sum.splits)

lemma osm_lookup_success:
  assumes "osm_lookup env (Some c) st = (resp, st')" and "status resp = 200"
      and "fetchOsmServices env c = Inr svcs" and "svcs \<noteq> []"
  shows "rows st' = filter (\<lambda>r. \<not> (source r = ''OSM'' \<and> country r = Some c)) (rows st)
                    @ number_from (next_id st) (map (osmRow env) svcs)"
  using assms
  by (auto simp: osm_lookup_def run_statement_def delete_rows_def insert_rows_def
        error_response_def success_response_def
      split: if_splits option.splits sum.splits)

text \<open>
  Claim C4, as amended. When the fetch returned at least one service and the handler
  answers 200 (the delete and the insert succeeded), the OSM rows of the country in the
  table are exactly the fetched services, as new rows with fresh ids, and every other row
  (manual, GooglePlaces, OSM of another country) is as it was, in its place. When the
  fetch returned no service the handler sends no statement: the table is unchanged.
\<close>

theorem osm_replace_by_country:
  "(osm_lookup env (Some c) st = (resp, st') \<and> status resp = 200
      \<and> fetchOsmServices env c = Inr svcs \<and> svcs \<noteq> [] \<longrightarrow>
      filter (\<lambda>r. source r = ''OSM'' \<and> country r = Some c) (rows st')
        = number_from (next_id st) (map (osmRow env) svcs)
    \<and> filter (\<lambda>r. \<not> (source r = ''OSM'' \<and> country r = Some c)) (rows st')
        = filter (\<lambda>r. \<not> (source r = ''OSM'' \<and> country r = Some c)) (rows st)
    \<and> rows st' = filter (\<lambda>r. \<not> (source r = ''OSM'' \<and> country r = Some c)) (rows st)
                  @ number_from (next_id st) (map (osmRow env) svcs)
    \<and> map osm_id (number_from (next_id st) (map (osmRow env) svcs)) = map osm_id svcs
    \<and> map service.id (number_from (next_id st) (map (osmRow env) svcs))
        = map Some [next_id st ..< next_id st + length svcs])
   \<and> (fetchOsmServices env c = Inr [] \<and> c \<noteq> [] \<longrightarrow>
        osm_lookup env (Some c) st = (success_response [], st))"
proof -
  let ?P = "\<lambda>r. source r = ''OSM'' \<and> country r = Some c"
  have empty: "fetchOsmServices env c = Inr [] \<and> c \<noteq> [] \<longrightarrow>
        osm_lookup env (Some c) st = (success_response [], st)"
    by (simp add: osm_lookup_def)
  have main: "filter ?P (rows st') = number_from (next_id st) (map (osmRow env) svcs)
    \<and> filter (\<lambda>r. \<not> ?P r) (rows st') = filter (\<lambda>r. \<not> ?P r) (rows st)
    \<and> rows st' = filter (\<lambda>r. \<not> ?P r) (rows st) @ number_from (next_id st) (map (osmRow env) svcs)
    \<and> map osm_id (number_from (next_id st) (map (osmRow env) svcs)) = map osm_id svcs
    \<and> map service.id (number_from (next_id st) (map (osmRow env) svcs))
        = map Some [next_id st ..< next_id st + length svcs]"
    if h: "osm_lookup env (Some c) st = (resp, st')" "status resp = 200"
          "fetchOsmServices env c = Inr svcs" "svcs \<noteq> []"
  proof -
    have r: "rows st' = filter (\<lambda>r. \<not> ?P r) (rows st)
                    @ number_from (next_id st) (map (osmRow env) svcs)"
      by (rule osm_lookup_success[OF h])
    have all: "\<forall>p\<in>set (map (osmRow env) svcs). ?P p"
      by (rule fetched_is_osm_of_country[OF h(3)])
    have f1: "filter ?P (number_from (next_id st) (map (osmRow env) svcs))
               = number_from (next_id st) (map (osmRow env) svcs)"
      by (rule number_from_filter_all[OF _ all]) simp
    have f2: "filter (\<lambda>r. \<not> ?P r) (number_from (next_id st) (map (osmRow env) svcs)) = []"
      by (rule number_from_filter_none[where P = "\<lambda>r. \<not> ?P r"]) (use all in auto)
    have o: "map osm_id (number_from (next_id st) (map (osmRow env) svcs)) = map osm_id svcs"
      by (simp add: number_from_map osmRow_def)
    have i: "map service.id (number_from n ps) = map Some [n ..< n + length ps]" for n ps
      by (induction ps arbitrary: n) (auto simp: upt_rec)
    show ?thesis unfolding r using f1 f2 o i by simp
  qed
  show ?thesis using main empty by blast
qed

theorem osm_replace_by_country_witness:
  "osm_lookup kenya_env (Some ''Kenya'') kenya_store
     = (success_response [osmService ''Kenya'' clinic_element],
        \<lparr>rows = [manual_row,
                  (osmRow kenya_env (osmService ''Kenya'' clinic_element))\<lparr>id := Some 2\<rparr>],
         next_id = 3\<rparr>)
   \<and> filter (\<lambda>r. source r = ''OSM'' \<and> country r = Some ''Kenya'')
        [manual_row, (osmRow kenya_env (osmService ''Kenya'' clinic_element))\<lparr>id := Some 2\<rparr>]
     = [(osmRow kenya_env (osmService ''Kenya'' clinic_element))\<lparr>id := Some 2\<rparr>]
   \<and> osm_lookup quiet_env (Some ''Kenya'') \<lparr>rows = [manual_row], next_id = 2\<rparr>
     = (success_response [], \<lparr>rows = [manual_row], next_id = 2\<rparr>)"
  using osm_replace_by_country [of kenya_env "''Kenya''" kenya_store
          "success_response [osmService ''Kenya'' clinic_element]"
          "\<lparr>rows = [manual_row,
                  (osmRow kenya_env (osmService ''Kenya'' clinic_element))\<lparr>id := Some 2\<rparr>],
            next_id = 3\<rparr>"
          "[osmService ''Kenya'' clinic_element]"]
        osm_replace_by_country [of quiet_env "''Kenya''" "\<lparr>rows = [manual_row], next_id = 2\<rparr>"]
  by (simp add: osm_lookup_def fetchOsmServices_def kenya_env_def quiet_env_def kenya_store_def
        run_statement_def delete_rows_def insert_rows_def success_response_def
        stale_osm_row_def manual_row_def blank_service_def osmRow_def osmService_def
        clinic_element_def not_null_ok_def check_ok_def unique_ok_def List.map_filter_def
        mapOsmTypeToServiceType_def or_literal_def js_or_def)

text \<open>The claim as stated fails for the empty set: the stale OSM row of Kenya is still
  in the table after a refresh that fetched nothing.\<close>

theorem stale_rows_survive_empty_fetch_counterexample:
  "osm_lookup quiet_env (Some ''Kenya'') kenya_store = (success_response [], kenya_store)
   \<and> fetchOsmServices quiet_env ''Kenya'' = Inr []
   \<and> filter (\<lambda>r. source r = ''OSM'' \<and> country r = Some ''Kenya'') (rows kenya_store)
       = [stale_osm_row]"
  by (simp add: osm_lookup_def fetchOsmServices_def quiet_env_def kenya_store_def
        stale_osm_row_def manual_row_def blank_service_def)

section \<open>Properties of the Places search\<close>









section \<open>Properties of the upsert\<close>
























lemma upsert_batches_single:
  assumes "ps \<noteq> []" and "length ps \<le> 10"
  shows "upsert_batches env ps 0 st
           = (case run_statement (db_fault env 0) (upsert_rows ps) st of
                Inl e \<Rightarrow> (Some e, st)
              | Inr st' \<Rightarrow> (None, st'))"
proof -
  have stop: "upsert_batches env ps 10 s = (None, s)" for s
    using assms(2) by (subst upsert_batches.simps) simp
  show ?thesis
    using assms by (subst upsert_batches.simps) (simp add: stop split: sum.splits)
qed








subsection \<open>Batches\<close>





section \<open>Properties of one aggregation call\<close>








end
